theory Spec2Isabelle
  imports Complex_Main
begin

section \<open>Transport: \<open>sendToServer\<close>\<close>

text \<open>
  A settled JavaScript promise. A \<open>.then\<close> callback that throws, or that returns a
  rejected promise, rejects the derived promise; \<open>.catch\<close> turns a rejection into a value.
\<close>

datatype 'a promise = Fulfilled 'a | Rejected string

definition then_p :: "'a promise \<Rightarrow> ('a \<Rightarrow> 'b promise) \<Rightarrow> 'b promise" where
  "then_p p f = (case p of Fulfilled x \<Rightarrow> f x | Rejected e \<Rightarrow> Rejected e)"

definition catch_p :: "'a promise \<Rightarrow> (string \<Rightarrow> 'a) \<Rightarrow> 'a promise" where
  "catch_p p g = (case p of Fulfilled x \<Rightarrow> Fulfilled x | Rejected e \<Rightarrow> Fulfilled (g e))"

text \<open>What a call does synchronously: it returns a value, or it throws.\<close>

datatype 'a outcome = Returned 'a | Thrown string

text \<open>
  The part of a \<open>Response\<close> that the agent reads: \<open>ok\<close>, \<open>status\<close>, the promise
  returned by \<open>response.json()\<close> (rejected when the body is not JSON), the parsed
  \<open>content-length\<close> header when there is one, and the promise of \<open>clone().text()\<close>.
\<close>

record response =
  ok :: bool
  status :: nat
  json :: "string promise"
  content_length :: "int option"
  body_text :: "string promise"

record request_options =
  req_method :: string
  req_content_type :: string
  req_x_api_key :: string
  req_body :: string

text \<open>
  The three host functions that \<open>sendToServer\<close> calls, none of them inside a \<open>try\<close>:
  \<open>JSON.stringify\<close>, which throws on a value it cannot serialise;
  \<open>navigator.sendBeacon\<close>, which may be absent and may throw; and the global \<open>fetch\<close>,
  which may be absent (calling it is then a \<open>ReferenceError\<close>) and may throw, and whose
  promise is rejected on a network failure.
\<close>

record 'd network =
  stringify :: "'d \<Rightarrow> string outcome"
  sendBeacon :: "(string \<Rightarrow> string \<Rightarrow> bool outcome) option"
  fetch :: "(string \<Rightarrow> request_options \<Rightarrow> response promise outcome) option"

text \<open>The chain \<open>.then(...).then(...).catch(...)\<close> on the promise that \<open>fetch\<close> returned.\<close>

definition response_chain :: "response promise \<Rightarrow> bool promise" where
  "response_chain p =
     catch_p
       (then_p
          (then_p p
             (\<lambda>response. if \<not> ok response
                then Rejected ''Server responded with status''
                else json response))
          (\<lambda>data. Fulfilled True))
       (\<lambda>err. False)"

text \<open>
  \<open>sendToServer\<close>, statement by statement: the request options (with the serialised
  body) are built first; with \<open>sync\<close> and a \<open>sendBeacon\<close> the beacon is sent and its
  result returned as a resolved promise; otherwise \<open>fetch\<close> is called and its promise
  chained. A throw of any of the three host functions leaves the function at once.
\<close>

definition sendToServer ::
  "'d network \<Rightarrow> string \<Rightarrow> string \<Rightarrow> 'd \<Rightarrow> string \<Rightarrow> bool \<Rightarrow> bool promise outcome" where
  "sendToServer net endpoint path data apiKey sync =
     (let url = endpoint @ path in
      case stringify net data of
        Thrown e \<Rightarrow> Thrown e
      | Returned body \<Rightarrow>
          (let requestOptions = \<lparr> req_method = ''POST'', req_content_type = ''application/json'',
                                  req_x_api_key = apiKey, req_body = body \<rparr>
           in case (if sync then sendBeacon net else None) of
                Some beacon \<Rightarrow>
                  (case beacon url body of
                     Thrown e \<Rightarrow> Thrown e
                   | Returned result \<Rightarrow> Returned (Fulfilled result))
              | None \<Rightarrow>
                  (case fetch net of
                     None \<Rightarrow> Thrown ''ReferenceError''
                   | Some host_fetch \<Rightarrow>
                       (case host_fetch url requestOptions of
                          Thrown e \<Rightarrow> Thrown e
                        | Returned p \<Rightarrow> Returned (response_chain p)))))"

section \<open>Data model of the agent\<close>

text \<open>
  JavaScript numbers (time stamps, \<open>DOMHighResTimeStamp\<close>s) are modelled as reals: the
  code below only compares, subtracts and rounds them. A JavaScript string that is
  tested for truthiness is an optional string, falsy when absent or empty.
\<close>

definition truthy_str :: "string option \<Rightarrow> bool" where
  "truthy_str v = (case v of None \<Rightarrow> False | Some x \<Rightarrow> x \<noteq> [])"

datatype visibility = Visible | Hidden

text \<open>The description \<open>targetElement\<close> that a FID record keeps of the target node.\<close>

record target_element =
  te_tagName :: string
  te_id :: "string option"
  te_className :: "string option"

record input_details =
  id_type :: string
  id_target :: "target_element option"
  id_processingStart :: real
  id_processingEnd :: real
  id_startTime :: real

text \<open>
  \<open>event_data\<close> of a buffered event. \<open>ed_name\<close> is empty for events that carry no
  \<open>name\<close>; the element description of an LCP entry is kept as one string.
\<close>

record event_data =
  ed_name :: string
  ed_value :: real
  ed_element :: "string option"
  ed_inputType :: "string option"
  ed_details :: "input_details option"
  ed_entries :: "nat option"

record event =
  ev_session_id :: "string option"
  ev_event_type :: string
  ev_data :: event_data
  ev_timestamp :: real

record vital_record =
  vr_value :: real
  vr_timestamp :: real
  vr_element :: "string option"
  vr_inputType :: "string option"
  vr_details :: "input_details option"
  vr_entries :: "nat option"

record web_vitals =
  LCP :: "vital_record option"
  FID :: "vital_record option"
  CLS :: "vital_record option"
  TTFB :: "vital_record option"
  INP :: "vital_record option"

text \<open>A \<open>PerformanceResourceTiming\<close> entry as read by \<open>_collectResources\<close>.\<close>

record resource_entry =
  pe_name :: string
  pe_initiatorType :: string
  pe_nextHopProtocol :: string
  pe_startTime :: real
  pe_duration :: real
  pe_transferSize :: real
  pe_encodedBodySize :: real
  pe_decodedBodySize :: real

record resource =
  res_name :: string
  res_type :: string
  res_startTime :: int
  res_duration :: int
  res_size :: real
  res_protocol :: string
  res_encodedSize :: real
  res_decodedSize :: real
  res_initiatorType :: string

text \<open>
  The fields of an intercepted network call that the buffers and the claims look at;
  the header excerpts and the correlated resource timing travel with the record and
  are not read by any operation modelled here.
\<close>

record ajax_call =
  ac_type :: string
  ac_method :: string
  ac_url :: string
  ac_status :: nat
  ac_startTime :: real
  ac_duration :: real
  ac_responseSize :: int
  ac_errored :: bool

record navigation_entry =
  nav_responseStart :: real
  nav_type :: string

record metadata =
  meta_url :: string
  meta_page_visibility :: visibility
  meta_visibility_changes :: nat
  meta_timestamp :: real

text \<open>
  The unified data model. Its \<open>errors\<close> array and \<open>metrics\<close> object are written by no
  operation modelled here and are left out; \<open>timings\<close> and \<open>meta\<close> are kept as the
  navigation entry and the few host properties they are copied from.
\<close>

record unified_model =
  um_session_id :: "string option"
  um_timestamp :: "real option"
  um_web_vitals :: web_vitals
  um_resources :: "resource list"
  um_ajax_requests :: "ajax_call list"
  um_timings :: "navigation_entry option"
  um_meta :: "metadata option"

record buffer =
  events :: "event list"
  resources :: "resource list"
  webVitals :: "event list"
  ajaxCalls :: "ajax_call list"
  preSessionAjaxCalls :: "ajax_call list"

text \<open>
  \<open>batchConfig\<close>. The constructor defines the first five fields (and three more that
  no method reads: \<open>webVitalsBatchDelay\<close>, \<open>batchBeforeSend\<close>,
  \<open>payloadCompressionThreshold\<close>); the other four are read by the buffer manager but
  never assigned, so they are \<open>undefined\<close> there: \<open>None\<close> for the size, \<open>False\<close>
  (falsy) for the flags.
\<close>

record batch_config =
  maxEventsPerBatch :: nat
  maxResourcesPerBatch :: nat
  maxWebVitalsPerBatch :: nat
  maxAjaxCallsPerBatch :: nat
  flushInterval :: nat
  maxBufferSize :: "nat option"
  resourceDedupingEnabled :: bool
  visibilityFlushEnabled :: bool
  flushAtIdle :: bool

text \<open>
  \<open>collectionState\<close>. The last three fields are read or written by the buffer manager
  but not created by the constructor, so they start \<open>undefined\<close>. Fields that only the
  unmodelled callbacks touch (\<open>isFirstLoad\<close>, \<open>pageLoaded\<close>, \<open>lastResourceFlush\<close>,
  \<open>lastEventFlush\<close>, \<open>isPerformanceObserverSet\<close>) are left out.
\<close>

record collection_state =
  resourcesCollected :: bool
  lastAjaxCallFlush :: "real option"
  isBatchProcessingStarted :: bool
  unloadSent :: bool
  visibilityChangeCount :: nat
  cs_visibilityState :: "visibility option"
  lastVisibilityChange :: "real option"
  resourceHashMap :: "(string \<rightharpoonup> real) option"

text \<open>
  Everything the agent registers with the host: interval timers, performance observers,
  DOM listeners and the patches of the network primitives, in registration order. The
  same kind of handler is registered again when its setup function runs again.
\<close>

datatype handler =
    ResourceCollectionTimer
  | PeriodicFlushTimer
  | LCPObserver
  | FIDObserver
  | CLSVisibilityHandler
  | CLSObserver
  | INPObserver
  | VitalsVisibilityHandler
  | VitalsUnloadHandler
  | LongTaskObserver
  | XHRPatch
  | FetchPatch
  | LifecycleVisibilityHandler
  | LifecycleUnloadHandler
  | PageLoadHandler
  | ClickHandler
  | IdleCallback
  | EngagementVisibilityHandler
  | BatchFlushTimer
  | BatchVisibilityHandler
  | BatchUnloadHandler
  | IdleFlushCallback
  | TrimTimer

record session_data =
  sd_session_id :: string
  sd_page_url :: string
  sd_timestamp :: real

datatype payload =
    SessionData session_data
  | UnifiedData unified_model
  | AjaxBatch "string option" "ajax_call list" real nat

text \<open>One call of \<open>_sendToServer(path, data, {sync})\<close>, recorded in call order.\<close>

record transmission =
  tx_path :: string
  tx_data :: payload
  tx_sync :: bool

record sdk =
  apiKey :: "string option"
  endpoint :: string
  sessionId :: "string option"
  sessionStartTime :: "real option"
  buffer :: buffer
  unifiedDataModel :: unified_model
  batchConfig :: batch_config
  collectionState :: collection_state
  installed :: "handler list"
  outbox :: "transmission list"

text \<open>The host page as the agent probes it.\<close>

record host =
  has_performance_mark :: bool
  has_PerformanceObserver :: bool
  supportedEntryTypes :: "string list option"
  has_fetch :: bool
  has_requestIdleCallback :: bool
  navigationEntry :: "navigation_entry option"
  timeOrigin :: real
  location_href :: string

record options =
  opt_apiKey :: "string option"
  opt_endpoint :: "string option"
  opt_flushInterval :: "nat option"

text \<open>
  What the host reports at the moment a callback runs: \<open>Date.now()\<close>,
  \<open>document.visibilityState\<close> and \<open>performance.getEntriesByType('resource')\<close>.
\<close>

record moment =
  now :: real
  visibilityState :: visibility
  resourceEntries :: "resource_entry list"

section \<open>String helpers\<close>

definition to_lower :: "char \<Rightarrow> char" where
  "to_lower c = (let n = (of_char c :: nat) in if 65 \<le> n \<and> n \<le> 90 then char_of (n + 32) else c)"

text \<open>\<open>s.includes(sub)\<close>.\<close>

fun str_includes :: "string \<Rightarrow> string \<Rightarrow> bool" where
  "str_includes [] sub = (sub = [])"
| "str_includes (c # cs) sub = (take (length sub) (c # cs) = sub \<or> str_includes cs sub)"

text \<open>\<open>s.split('?')[0]\<close>.\<close>

definition before_query :: "string \<Rightarrow> string" where
  "before_query s = takeWhile (\<lambda>c. c \<noteq> CHR ''?'') s"

text \<open>
  The tests \<open>/\.(?:e1|e2|...)(?:\?|$)/i\<close> of \<open>_getResourceType\<close>: somewhere in the
  string a dot, one of the (lower-case) extensions in any letter case, and then a
  question mark or the end of the string.
\<close>

definition ext_here :: "string list \<Rightarrow> string \<Rightarrow> bool" where
  "ext_here exts s =
     list_ex (\<lambda>e. map to_lower (take (length e) s) = e
        \<and> (case drop (length e) s of [] \<Rightarrow> True | c # _ \<Rightarrow> c = CHR ''?'')) exts"

fun has_ext :: "string list \<Rightarrow> string \<Rightarrow> bool" where
  "has_ext exts [] = False"
| "has_ext exts (c # cs) = ((c = CHR ''.'' \<and> ext_here exts cs) \<or> has_ext exts cs)"

text \<open>\<open>Math.round\<close>: the nearest integer, halves rounded up.\<close>

definition Math_round :: "real \<Rightarrow> int" where
  "Math_round x = \<lfloor>x + 1 / 2\<rfloor>"

text \<open>\<open>xs.slice(-n)\<close> for a non-negative integer \<open>n\<close>; \<open>slice(-0)\<close> is \<open>slice(0)\<close>.\<close>

definition slice_last :: "nat \<Rightarrow> 'a list \<Rightarrow> 'a list" where
  "slice_last n xs = (if n = 0 then xs else drop (length xs - n) xs)"

section \<open>Buffer management\<close>

text \<open>
  \<open>trimBuffers\<close>: \<open>length > maxSize\<close> is false when \<open>maxSize\<close> is \<open>undefined\<close>. Only the
  events, resources and web-vitals buffers are looked at.
\<close>

definition trim :: "nat option \<Rightarrow> 'a list \<Rightarrow> 'a list" where
  "trim maxSize xs =
     (case maxSize of None \<Rightarrow> xs
      | Some n \<Rightarrow> if length xs > n then slice_last n xs else xs)"

definition trimBuffers :: "sdk \<Rightarrow> sdk" where
  "trimBuffers s =
     (let maxSize = maxBufferSize (batchConfig s); b = buffer s
      in s\<lparr> buffer := b\<lparr> events := trim maxSize (events b),
                            resources := trim maxSize (resources b),
                            webVitals := trim maxSize (webVitals b) \<rparr> \<rparr>)"

definition hashResource :: "resource \<Rightarrow> string" where
  "hashResource r =
     res_type r @ ''|'' @ before_query (res_name r) @ ''|''
       @ (if res_duration r < 50 then ''fast'' else ''slow'')"

text \<open>
  \<open>shouldCollectResource\<close>. Reading a key of the \<open>undefined\<close> hash map is a
  \<open>TypeError\<close> (\<open>None\<close>). A stored stamp is truthy unless it is \<open>0\<close>.
\<close>

definition shouldCollectResource :: "moment \<Rightarrow> resource \<Rightarrow> sdk \<Rightarrow> (bool \<times> sdk) option" where
  "shouldCollectResource m r s =
     (if resourceDedupingEnabled (batchConfig s) then
        (case resourceHashMap (collectionState s) of
           None \<Rightarrow> None
         | Some seen \<Rightarrow>
             (let hash = hashResource r in
              if (case seen hash of None \<Rightarrow> False | Some t \<Rightarrow> t \<noteq> 0) then Some (False, s)
              else Some (True,
                     s\<lparr> collectionState :=
                          (collectionState s)\<lparr> resourceHashMap := Some (seen(hash \<mapsto> now m)) \<rparr> \<rparr>)))
      else Some (True, s))"

section \<open>Resource collection\<close>

definition getResourceType :: "resource_entry \<Rightarrow> string" where
  "getResourceType e =
     (let initiatorType = pe_initiatorType e; url = pe_name e in
      if initiatorType = ''img'' \<or> initiatorType = ''image'' then ''image''
      else if initiatorType = ''script'' then ''script''
      else if initiatorType = ''link'' \<and> pe_nextHopProtocol e \<noteq> [] then ''stylesheet''
      else if initiatorType = ''css'' then ''stylesheet''
      else if initiatorType = ''fetch'' \<or> initiatorType = ''xmlhttprequest'' then ''xhr''
      else if has_ext [''png'', ''jpg'', ''jpeg'', ''gif'', ''webp'', ''svg'', ''ico''] url then ''image''
      else if has_ext [''js''] url then ''script''
      else if has_ext [''css''] url then ''stylesheet''
      else if has_ext [''woff'', ''woff2'', ''ttf'', ''otf'', ''eot''] url then ''font''
      else if has_ext [''mp4'', ''webm'', ''ogv''] url then ''video''
      else if has_ext [''mp3'', ''ogg'', ''wav''] url then ''audio''
      else ''other'')"

definition isResourceProcessed :: "string \<Rightarrow> sdk \<Rightarrow> bool" where
  "isResourceProcessed url s =
     list_ex (\<lambda>r. res_name r = url) (um_resources (unifiedDataModel s))"

definition processedResource :: "resource_entry \<Rightarrow> resource" where
  "processedResource e =
     \<lparr> res_name = pe_name e,
       res_type = getResourceType e,
       res_startTime = Math_round (pe_startTime e),
       res_duration = Math_round (pe_duration e),
       res_size = pe_transferSize e,
       res_protocol = pe_nextHopProtocol e,
       res_encodedSize = pe_encodedBodySize e,
       res_decodedSize = pe_decodedBodySize e,
       res_initiatorType = pe_initiatorType e \<rparr>"

text \<open>The body of the \<open>forEach\<close> in \<open>_collectResources\<close>.\<close>

definition collectResource :: "resource_entry \<Rightarrow> sdk \<Rightarrow> sdk" where
  "collectResource e s =
     (if isResourceProcessed (pe_name e) s then s
      else s\<lparr> unifiedDataModel :=
                (unifiedDataModel s)\<lparr> um_resources :=
                   um_resources (unifiedDataModel s) @ [processedResource e] \<rparr> \<rparr>)"

definition collectResources :: "moment \<Rightarrow> sdk \<Rightarrow> sdk" where
  "collectResources m s =
     (let s' = fold collectResource (resourceEntries m) s
      in s'\<lparr> collectionState := (collectionState s')\<lparr> resourcesCollected := True \<rparr> \<rparr>)"

definition captureResourceData :: "moment \<Rightarrow> sdk \<Rightarrow> sdk" where
  "captureResourceData m s = collectResources m s"

section \<open>The unified model\<close>

text \<open>The body of the \<open>forEach\<close> in \<open>_updateWebVitalsInUnifiedModel\<close>.\<close>

definition merge_vital :: "event \<Rightarrow> web_vitals \<Rightarrow> web_vitals" where
  "merge_vital vital wv =
     (let name = ed_name (ev_data vital); v = ed_value (ev_data vital);
          stamp = ev_timestamp vital;
          plain = \<lparr> vr_value = v, vr_timestamp = stamp, vr_element = None,
                    vr_inputType = None, vr_details = None, vr_entries = None \<rparr>
      in
      if name = [] then wv
      else if name = ''LCP'' then
        (if (case LCP wv of None \<Rightarrow> True | Some r \<Rightarrow> v > vr_value r)
         then wv\<lparr> LCP := Some (plain\<lparr> vr_element :=
                 Some (case ed_element (ev_data vital) of
                         None \<Rightarrow> ''unknown'' | Some el \<Rightarrow> if el = [] then ''unknown'' else el) \<rparr>) \<rparr>
         else wv)
      else if name = ''FID'' then
        (if FID wv = None
         then wv\<lparr> FID := Some (plain\<lparr> vr_inputType := ed_inputType (ev_data vital) \<rparr>) \<rparr>
         else wv)
      else if name = ''CLS'' then
        (if (case CLS wv of None \<Rightarrow> True | Some r \<Rightarrow> v > vr_value r)
         then wv\<lparr> CLS := Some (plain\<lparr> vr_entries := ed_entries (ev_data vital) \<rparr>) \<rparr>
         else wv)
      else if name = ''INP'' then
        (if (case INP wv of None \<Rightarrow> True | Some r \<Rightarrow> v > vr_value r)
         then wv\<lparr> INP := Some plain \<rparr>
         else wv)
      else wv)"

definition updateWebVitalsInUnifiedModel :: "sdk \<Rightarrow> sdk" where
  "updateWebVitalsInUnifiedModel s =
     s\<lparr> unifiedDataModel :=
          (unifiedDataModel s)\<lparr> um_web_vitals :=
             fold merge_vital (webVitals (buffer s)) (um_web_vitals (unifiedDataModel s)) \<rparr>,
        buffer := (buffer s)\<lparr> webVitals := [] \<rparr> \<rparr>"

definition updateMetadata :: "host \<Rightarrow> moment \<Rightarrow> sdk \<Rightarrow> sdk" where
  "updateMetadata h m s =
     s\<lparr> unifiedDataModel :=
          (unifiedDataModel s)\<lparr> um_meta := Some
             \<lparr> meta_url = location_href h,
               meta_page_visibility = visibilityState m,
               meta_visibility_changes = visibilityChangeCount (collectionState s),
               meta_timestamp = now m \<rparr> \<rparr> \<rparr>"

definition consolidateBufferedData :: "host \<Rightarrow> moment \<Rightarrow> sdk \<Rightarrow> sdk" where
  "consolidateBufferedData h m s =
     (let s1 = (if length (resources (buffer s)) > 0
                then s\<lparr> unifiedDataModel :=
                         (unifiedDataModel s)\<lparr> um_resources :=
                            um_resources (unifiedDataModel s) @ resources (buffer s) \<rparr>,
                       buffer := (buffer s)\<lparr> resources := [] \<rparr> \<rparr>
                else s);
          s2 = (if length (ajaxCalls (buffer s1)) > 0
                then s1\<lparr> unifiedDataModel :=
                          (unifiedDataModel s1)\<lparr> um_ajax_requests :=
                             um_ajax_requests (unifiedDataModel s1) @ ajaxCalls (buffer s1) \<rparr>,
                        buffer := (buffer s1)\<lparr> ajaxCalls := [] \<rparr> \<rparr>
                else s1);
          s3 = s2\<lparr> buffer := (buffer s2)\<lparr> events := [] \<rparr> \<rparr>;
          s4 = s3\<lparr> unifiedDataModel :=
                    (unifiedDataModel s3)\<lparr> um_session_id := sessionId s3,
                                            um_timestamp := Some (now m) \<rparr> \<rparr>
      in updateMetadata h m s4)"

definition resetVolatileDataInUnifiedModel :: "sdk \<Rightarrow> sdk" where
  "resetVolatileDataInUnifiedModel s =
     s\<lparr> unifiedDataModel :=
          (unifiedDataModel s)\<lparr> um_resources := [], um_ajax_requests := [] \<rparr> \<rparr>"

text \<open>
  \<open>_sendToServer\<close> as the agent's methods use it: the call is recorded, and the
  promise it returns is dropped by every caller except \<open>createSession\<close>. What the
  call does on the host, a throw included, is \<open>sendToServer\<close> above; the methods
  below are followed for calls that return.
\<close>

definition send :: "string \<Rightarrow> payload \<Rightarrow> bool \<Rightarrow> sdk \<Rightarrow> sdk" where
  "send pth dat sync s =
     s\<lparr> outbox := outbox s @ [\<lparr> tx_path = pth, tx_data = dat, tx_sync = sync \<rparr>] \<rparr>"

definition sendUnifiedData :: "bool \<Rightarrow> sdk \<Rightarrow> sdk" where
  "sendUnifiedData useBeacon s =
     (if \<not> truthy_str (um_session_id (unifiedDataModel s)) then s
      else resetVolatileDataInUnifiedModel
             (send ''/api/collect'' (UnifiedData (unifiedDataModel s)) useBeacon s))"

definition prepareFinalDataAndSend :: "host \<Rightarrow> moment \<Rightarrow> bool \<Rightarrow> sdk \<Rightarrow> sdk" where
  "prepareFinalDataAndSend h m useBeacon s =
     sendUnifiedData useBeacon (updateWebVitalsInUnifiedModel (consolidateBufferedData h m s))"

definition vital_has_value :: "vital_record option \<Rightarrow> bool" where
  "vital_has_value v = (case v of None \<Rightarrow> False | Some r \<Rightarrow> vr_value r \<noteq> 0)"

definition hasSignificantData :: "sdk \<Rightarrow> bool" where
  "hasSignificantData s =
     (length (um_resources (unifiedDataModel s)) > 0
      \<or> length (um_ajax_requests (unifiedDataModel s)) > 0
      \<or> length (webVitals (buffer s)) > 0
      \<or> vital_has_value (LCP (um_web_vitals (unifiedDataModel s)))
      \<or> vital_has_value (FID (um_web_vitals (unifiedDataModel s)))
      \<or> vital_has_value (CLS (um_web_vitals (unifiedDataModel s))))"

definition sendCollectedData :: "host \<Rightarrow> moment \<Rightarrow> bool \<Rightarrow> sdk \<Rightarrow> sdk" where
  "sendCollectedData h m useBeacon s = prepareFinalDataAndSend h m useBeacon s"

text \<open>\<open>sendEvent\<close> returns \<open>false\<close> and changes nothing while there is no session id.\<close>

definition sendEvent :: "moment \<Rightarrow> string \<Rightarrow> event_data \<Rightarrow> bool \<Rightarrow> sdk \<Rightarrow> bool \<times> sdk" where
  "sendEvent m eventType eventData immediate s =
     (if \<not> truthy_str (sessionId s) then (False, s)
      else
        (let ev = \<lparr> ev_session_id = sessionId s, ev_event_type = eventType,
                    ev_data = eventData, ev_timestamp = now m \<rparr>
         in if eventType = ''core_web_vital'' then
              (let s1 = s\<lparr> buffer := (buffer s)\<lparr> webVitals := webVitals (buffer s) @ [ev] \<rparr> \<rparr>
               in (True, if immediate then updateWebVitalsInUnifiedModel s1 else s1))
            else (True, s\<lparr> buffer := (buffer s)\<lparr> events := events (buffer s) @ [ev] \<rparr> \<rparr>)))"

section \<open>Network-call records\<close>

definition flushAjaxCalls :: "moment \<Rightarrow> bool \<Rightarrow> sdk \<Rightarrow> sdk" where
  "flushAjaxCalls m useBeacon s =
     (if length (ajaxCalls (buffer s)) = 0 then s
      else
        (let ajaxCallsToSend = take (maxAjaxCallsPerBatch (batchConfig s)) (ajaxCalls (buffer s));
             s1 = s\<lparr> buffer := (buffer s)\<lparr> ajaxCalls :=
                       drop (maxAjaxCallsPerBatch (batchConfig s)) (ajaxCalls (buffer s)) \<rparr> \<rparr>;
             batchData = AjaxBatch (sessionId s1) ajaxCallsToSend (now m) (length ajaxCallsToSend);
             s2 = s1\<lparr> collectionState := (collectionState s1)\<lparr> lastAjaxCallFlush := Some (now m) \<rparr> \<rparr>
         in send ''/api/ajax-calls'' batchData useBeacon s2))"

definition storeAjaxCallData :: "moment \<Rightarrow> ajax_call \<Rightarrow> sdk \<Rightarrow> sdk" where
  "storeAjaxCallData m ajaxCallData s =
     (if truthy_str (sessionId s) then
        (let s1 = s\<lparr> buffer := (buffer s)\<lparr> ajaxCalls := ajaxCalls (buffer s) @ [ajaxCallData] \<rparr> \<rparr>
         in if length (ajaxCalls (buffer s1)) \<ge> maxAjaxCallsPerBatch (batchConfig s1)
            then flushAjaxCalls m False s1 else s1)
      else s\<lparr> buffer := (buffer s)\<lparr> preSessionAjaxCalls :=
                  preSessionAjaxCalls (buffer s) @ [ajaxCallData] \<rparr> \<rparr>)"

definition mergePreSessionAjaxCalls :: "sdk \<Rightarrow> sdk" where
  "mergePreSessionAjaxCalls s =
     (if length (preSessionAjaxCalls (buffer s)) = 0 then s
      else s\<lparr> buffer := (buffer s)\<lparr> ajaxCalls := ajaxCalls (buffer s) @ preSessionAjaxCalls (buffer s),
                                     preSessionAjaxCalls := [] \<rparr> \<rparr>)"

section \<open>Construction and session registration\<close>

definition install :: "handler list \<Rightarrow> sdk \<Rightarrow> sdk" where
  "install hs s = s\<lparr> installed := installed s @ hs \<rparr>"

definition setupPeriodicFlush :: "sdk \<Rightarrow> sdk" where
  "setupPeriodicFlush s = install [PeriodicFlushTimer] s"

definition startBatchedCollection :: "sdk \<Rightarrow> sdk" where
  "startBatchedCollection s = setupPeriodicFlush (install [ResourceCollectionTimer] s)"

definition setupBatchedCollection :: "sdk \<Rightarrow> sdk" where
  "setupBatchedCollection s =
     (if \<not> isBatchProcessingStarted (collectionState s)
      then startBatchedCollection
             (s\<lparr> collectionState := (collectionState s)\<lparr> isBatchProcessingStarted := True \<rparr> \<rparr>)
      else s)"

definition supports :: "host \<Rightarrow> string \<Rightarrow> bool" where
  "supports h t = (case supportedEntryTypes h of None \<Rightarrow> False | Some ts \<Rightarrow> List.member ts t)"

text \<open>
  \<open>setupCoreWebVitals\<close>: \<open>setupLCP\<close>, \<open>setupFID\<close>, \<open>setupCLS\<close> (a visibility listener
  and an observer), \<open>setupINP\<close>, \<open>setupPageVisibilityHandler\<close> (two listeners) and
  \<open>setupLongTasksMonitoring\<close>, in this order.
\<close>

definition setupCoreWebVitals :: "host \<Rightarrow> sdk \<Rightarrow> sdk" where
  "setupCoreWebVitals h s =
     (if has_PerformanceObserver h then
        install ([LCPObserver, FIDObserver, CLSVisibilityHandler, CLSObserver]
                 @ (if supports h ''event'' then [INPObserver] else [])
                 @ [VitalsVisibilityHandler, VitalsUnloadHandler]
                 @ (if supports h ''longtask'' then [LongTaskObserver] else [])) s
      else s)"

definition vital_event :: "string \<Rightarrow> real \<Rightarrow> event_data" where
  "vital_event name v =
     \<lparr> ed_name = name, ed_value = v, ed_element = None, ed_inputType = None,
       ed_details = None, ed_entries = None \<rparr>"

definition plain_vital :: "real \<Rightarrow> real \<Rightarrow> vital_record" where
  "plain_vital v stamp =
     \<lparr> vr_value = v, vr_timestamp = stamp, vr_element = None, vr_inputType = None,
       vr_details = None, vr_entries = None \<rparr>"

definition captureNavigationTiming :: "host \<Rightarrow> moment \<Rightarrow> sdk \<Rightarrow> sdk" where
  "captureNavigationTiming h m s =
     (case navigationEntry h of
        None \<Rightarrow> s
      | Some navEntry \<Rightarrow>
          (let um = unifiedDataModel s;
               s1 = s\<lparr> unifiedDataModel :=
                        um\<lparr> um_timings := Some navEntry,
                            um_web_vitals := (um_web_vitals um)\<lparr> TTFB := Some
                              (plain_vital (nav_responseStart navEntry)
                                 (timeOrigin h + nav_responseStart navEntry)) \<rparr> \<rparr> \<rparr>
           in snd (sendEvent m ''core_web_vital''
                     (vital_event ''TTFB'' (nav_responseStart navEntry)) True s1)))"

definition initPerformanceMetrics :: "host \<Rightarrow> moment \<Rightarrow> sdk \<Rightarrow> sdk" where
  "initPerformanceMetrics h m s =
     (if has_performance_mark h then captureNavigationTiming h m (setupCoreWebVitals h s) else s)"

text \<open>\<open>setupAjaxMonitoring\<close>: \<open>monitorXMLHttpRequests\<close>, then \<open>monitorFetchAPI\<close>.\<close>

definition setupAjaxMonitoring :: "host \<Rightarrow> sdk \<Rightarrow> sdk" where
  "setupAjaxMonitoring h s = install ([XHRPatch] @ (if has_fetch h then [FetchPatch] else [])) s"

text \<open>
  \<open>createSession\<close> up to the point where it returns: the id is the base-36 time stamp,
  a dash and the random UUID, both supplied by the host.
\<close>

definition createSession :: "host \<Rightarrow> moment \<Rightarrow> string \<Rightarrow> string \<Rightarrow> sdk \<Rightarrow> sdk" where
  "createSession h m stamp randomPart s =
     (let sid = stamp @ ''-'' @ randomPart;
          s1 = s\<lparr> sessionId := Some sid \<rparr>;
          sessionData = \<lparr> sd_session_id = sid, sd_page_url = location_href h,
                          sd_timestamp = now m \<rparr>;
          s2 = mergePreSessionAjaxCalls s1
      in send ''/api/sessions'' (SessionData sessionData) False s2)"

definition setupPageLifecycleEvents :: "sdk \<Rightarrow> sdk" where
  "setupPageLifecycleEvents s =
     setupPeriodicFlush (install [LifecycleVisibilityHandler, LifecycleUnloadHandler] s)"

definition init :: "host \<Rightarrow> moment \<Rightarrow> string \<Rightarrow> string \<Rightarrow> sdk \<Rightarrow> sdk" where
  "init h m stamp randomPart s =
     (if \<not> truthy_str (apiKey s) then s
      else setupPageLifecycleEvents
             (createSession h m stamp randomPart
                (setupAjaxMonitoring h (initPerformanceMetrics h m s))))"

definition or_default :: "nat option \<Rightarrow> nat \<Rightarrow> nat" where
  "or_default v d = (case v of None \<Rightarrow> d | Some n \<Rightarrow> if n = 0 then d else n)"

definition fresh :: "options \<Rightarrow> sdk" where
  "fresh opts =
     \<lparr> apiKey = opt_apiKey opts,
       endpoint = (case opt_endpoint opts of
                     None \<Rightarrow> ''http://localhost:3000''
                   | Some e \<Rightarrow> if e = [] then ''http://localhost:3000'' else e),
       sessionId = None,
       sessionStartTime = None,
       buffer = \<lparr> events = [], resources = [], webVitals = [], ajaxCalls = [],
                  preSessionAjaxCalls = [] \<rparr>,
       unifiedDataModel =
         \<lparr> um_session_id = None, um_timestamp = None,
           um_web_vitals = \<lparr> LCP = None, FID = None, CLS = None, TTFB = None, INP = None \<rparr>,
           um_resources = [], um_ajax_requests = [], um_timings = None, um_meta = None \<rparr>,
       batchConfig =
         \<lparr> maxEventsPerBatch = 50, maxResourcesPerBatch = 50, maxWebVitalsPerBatch = 20,
           maxAjaxCallsPerBatch = 50, flushInterval = or_default (opt_flushInterval opts) 5000,
           maxBufferSize = None, resourceDedupingEnabled = False,
           visibilityFlushEnabled = False, flushAtIdle = False \<rparr>,
       collectionState =
         \<lparr> resourcesCollected = False, lastAjaxCallFlush = None,
           isBatchProcessingStarted = False, unloadSent = False, visibilityChangeCount = 0,
           cs_visibilityState = None, lastVisibilityChange = None, resourceHashMap = None \<rparr>,
       installed = [],
       outbox = [] \<rparr>"

text \<open>
  The constructor: the fields, \<open>_setupBatchedCollection()\<close>, then \<open>_init()\<close>, for a
  registration request that returns (see \<open>activate\<close> for one that throws).
\<close>

definition Optima :: "host \<Rightarrow> moment \<Rightarrow> string \<Rightarrow> string \<Rightarrow> options \<Rightarrow> sdk" where
  "Optima h m stamp randomPart opts = init h m stamp randomPart (setupBatchedCollection (fresh opts))"

text \<open>
  \<open>setupEventListeners\<close>: the page-load hook, the click listener, the idle callback and
  the engagement visibility listener.
\<close>

definition setupEventListeners :: "host \<Rightarrow> sdk \<Rightarrow> sdk" where
  "setupEventListeners h s =
     (if \<not> truthy_str (sessionId s) then s
      else install ([PageLoadHandler, ClickHandler]
                    @ (if has_requestIdleCallback h then [IdleCallback] else [])
                    @ [EngagementVisibilityHandler]) s)"

definition setupPerformanceObservers :: "host \<Rightarrow> moment \<Rightarrow> sdk \<Rightarrow> sdk" where
  "setupPerformanceObservers h m s =
     captureResourceData m (setupAjaxMonitoring h (setupCoreWebVitals h s))"

definition startBatchProcessing :: "host \<Rightarrow> sdk \<Rightarrow> sdk" where
  "startBatchProcessing h s =
     install ([BatchFlushTimer]
              @ (if visibilityFlushEnabled (batchConfig s) then [BatchVisibilityHandler] else [])
              @ [BatchUnloadHandler]
              @ (if flushAtIdle (batchConfig s) \<and> has_requestIdleCallback h
                 then [IdleFlushCallback] else [])
              @ [TrimTimer]) s"

text \<open>
  The \<open>.then(success => ...)\<close> callback that \<open>createSession\<close> attaches to the promise of
  the \<open>/api/sessions\<close> request.
\<close>

definition sessionRegistered :: "host \<Rightarrow> moment \<Rightarrow> bool \<Rightarrow> sdk \<Rightarrow> sdk" where
  "sessionRegistered h m success s =
     (if success then
        (let s1 = setupEventListeners h s;
             s2 = setupPerformanceObservers h m s1;
             s3 = startBatchProcessing h s2;
             s4 = s3\<lparr> sessionStartTime := Some (now m) \<rparr>
         in s4\<lparr> unifiedDataModel :=
                  (unifiedDataModel s4)\<lparr> um_session_id := sessionId s4,
                                          um_timestamp := sessionStartTime s4 \<rparr> \<rparr>)
      else s)"

text \<open>
  Activation end to end: construct the agent, let the host carry out the
  \<open>/api/sessions\<close> request that \<open>createSession\<close> recorded, and run the callback on the
  settled value. Without a request (no credential) nothing is pending. When the
  request throws, the exception leaves \<open>createSession\<close>, \<open>_init\<close> and the constructor,
  and no agent is returned.
\<close>

definition activate ::
  "payload network \<Rightarrow> host \<Rightarrow> moment \<Rightarrow> string \<Rightarrow> string \<Rightarrow> options \<Rightarrow> moment
     \<Rightarrow> sdk outcome" where
  "activate net h m stamp randomPart opts m' =
     (let s = Optima h m stamp randomPart opts
      in case outbox s of
           [] \<Rightarrow> Returned s
         | tx # _ \<Rightarrow>
             (case sendToServer net (endpoint s) (tx_path tx) (tx_data tx)
                     (case apiKey s of None \<Rightarrow> [] | Some k \<Rightarrow> k) (tx_sync tx) of
                Thrown e \<Rightarrow> Thrown e
              | Returned (Fulfilled success) \<Rightarrow> Returned (sessionRegistered h m' success s)
              | Returned (Rejected e) \<Rightarrow> Returned s))"

section \<open>Page signals and timers\<close>

definition refreshVisibleState :: "moment \<Rightarrow> sdk \<Rightarrow> sdk" where
  "refreshVisibleState m s =
     (if visibilityChangeCount (collectionState s) > 1 then collectResources m s else s)"

definition flushBuffers :: "host \<Rightarrow> moment \<Rightarrow> bool \<Rightarrow> sdk \<Rightarrow> sdk" where
  "flushBuffers h m useBeacon s = prepareFinalDataAndSend h m useBeacon s"

definition flushEvents :: "host \<Rightarrow> moment \<Rightarrow> bool \<Rightarrow> sdk \<Rightarrow> sdk" where
  "flushEvents h m useBeacon s = prepareFinalDataAndSend h m useBeacon s"

definition flushResources :: "host \<Rightarrow> moment \<Rightarrow> bool \<Rightarrow> sdk \<Rightarrow> sdk" where
  "flushResources h m useBeacon s = prepareFinalDataAndSend h m useBeacon s"

definition flushWebVitals :: "host \<Rightarrow> moment \<Rightarrow> bool \<Rightarrow> sdk \<Rightarrow> sdk" where
  "flushWebVitals h m useBeacon s =
     prepareFinalDataAndSend h m useBeacon (updateWebVitalsInUnifiedModel s)"

text \<open>
  What one registered listener does on \<open>visibilitychange\<close>. The listener of \<open>setupCLS\<close>
  writes the CLS slot from its own accumulator and transmits nothing; its accumulator
  is not part of this model, so it is left out here, like the handlers of other events.
\<close>

definition on_visibilitychange :: "host \<Rightarrow> moment \<Rightarrow> handler \<Rightarrow> sdk \<Rightarrow> sdk" where
  "on_visibilitychange h m hnd s =
     (case hnd of
        VitalsVisibilityHandler \<Rightarrow>
          (if visibilityState m = Hidden \<and> length (webVitals (buffer s)) > 0
           then prepareFinalDataAndSend h m True s else s)
      | LifecycleVisibilityHandler \<Rightarrow>
          (let s1 = s\<lparr> collectionState := (collectionState s)\<lparr> visibilityChangeCount :=
                          visibilityChangeCount (collectionState s) + 1 \<rparr> \<rparr>
           in if visibilityState m = Hidden then prepareFinalDataAndSend h m True s1
              else refreshVisibleState m s1)
      | EngagementVisibilityHandler \<Rightarrow>
          snd (sendEvent m ''visibility_change'' (vital_event [] 0) (visibilityState m = Hidden) s)
      | BatchVisibilityHandler \<Rightarrow>
          (let s1 = s\<lparr> collectionState := (collectionState s)\<lparr> cs_visibilityState :=
                          Some (visibilityState m) \<rparr> \<rparr>
           in if (case lastVisibilityChange (collectionState s1) of
                    None \<Rightarrow> False | Some t \<Rightarrow> now m - t > 1000)
              then (let s2 = s1\<lparr> collectionState := (collectionState s1)\<lparr> lastVisibilityChange :=
                                   Some (now m) \<rparr> \<rparr>
                    in if visibilityState m = Hidden then flushBuffers h m True s2 else s2)
              else s1)
      | _ \<Rightarrow> s)"

definition on_beforeunload :: "host \<Rightarrow> moment \<Rightarrow> handler \<Rightarrow> sdk \<Rightarrow> sdk" where
  "on_beforeunload h m hnd s =
     (case hnd of
        VitalsUnloadHandler \<Rightarrow>
          (if length (webVitals (buffer s)) > 0 then prepareFinalDataAndSend h m True s else s)
      | LifecycleUnloadHandler \<Rightarrow>
          (if \<not> unloadSent (collectionState s)
           then (let s1 = prepareFinalDataAndSend h m True s
                 in s1\<lparr> collectionState := (collectionState s1)\<lparr> unloadSent := True \<rparr> \<rparr>)
           else s)
      | BatchUnloadHandler \<Rightarrow> flushBuffers h m True s
      | _ \<Rightarrow> s)"

text \<open>A DOM event reaches every registered listener, in registration order.\<close>

definition dispatch_visibilitychange :: "host \<Rightarrow> moment \<Rightarrow> sdk \<Rightarrow> sdk" where
  "dispatch_visibilitychange h m s = fold (on_visibilitychange h m) (installed s) s"

definition dispatch_beforeunload :: "host \<Rightarrow> moment \<Rightarrow> sdk \<Rightarrow> sdk" where
  "dispatch_beforeunload h m s = fold (on_beforeunload h m) (installed s) s"

text \<open>One firing of one interval timer.\<close>

definition timer_fires :: "host \<Rightarrow> moment \<Rightarrow> handler \<Rightarrow> sdk \<Rightarrow> sdk" where
  "timer_fires h m hnd s =
     (case hnd of
        ResourceCollectionTimer \<Rightarrow> collectResources m s
      | PeriodicFlushTimer \<Rightarrow>
          (if hasSignificantData s then prepareFinalDataAndSend h m False s else s)
      | BatchFlushTimer \<Rightarrow>
          (let s1 = (if length (events (buffer s)) > 0 then flushEvents h m False s else s);
               s2 = (if length (webVitals (buffer s1)) > 0 then flushWebVitals h m False s1 else s1)
           in if length (resources (buffer s2)) > 0 then flushResources h m False s2 else s2)
      | TrimTimer \<Rightarrow> trimBuffers s
      | _ \<Rightarrow> s)"

text \<open>
  What the page and the host can do to a constructed agent between two callbacks: a
  registered timer fires, a page signal is dispatched, or the page issues one of the
  commands \<open>flushBuffers\<close>, \<open>captureResources\<close> and \<open>event\<close>. (The \<open>debug\<close> command
  writes nothing before it fails on the missing hash map.)
\<close>

datatype page_event =
    TimerFires moment handler
  | VisibilityChange moment
  | BeforeUnload moment
  | FlushCommand moment bool
  | CaptureCommand moment
  | EventCommand moment string event_data bool

fun page_step :: "host \<Rightarrow> page_event \<Rightarrow> sdk \<Rightarrow> sdk" where
  "page_step h (TimerFires m hnd) s =
     (if List.member (installed s) hnd then timer_fires h m hnd s else s)"
| "page_step h (VisibilityChange m) s = dispatch_visibilitychange h m s"
| "page_step h (BeforeUnload m) s = dispatch_beforeunload h m s"
| "page_step h (FlushCommand m useBeacon) s = sendCollectedData h m useBeacon s"
| "page_step h (CaptureCommand m) s = captureResourceData m s"
| "page_step h (EventCommand m eventType eventData immediate) s =
     snd (sendEvent m eventType eventData immediate s)"

definition page_run :: "host \<Rightarrow> page_event list \<Rightarrow> sdk \<Rightarrow> sdk" where
  "page_run h evs s = fold (page_step h) evs s"

text \<open>The \<open>/api/collect\<close> transmissions among the recorded calls.\<close>

definition collect_sends :: "sdk \<Rightarrow> transmission list" where
  "collect_sends s = filter (\<lambda>tx. tx_path tx = ''/api/collect'') (outbox s)"

section \<open>Observers of paint and input timing\<close>












text \<open>
  A \<open>first-input\<close> entry as a callback reads it. The timing fields are fixed when the
  platform queues the entry; \<open>target\<close> is the live node, absent once it has left the
  document, and its \<open>id\<close> and \<open>className\<close> are the ones it has when the callback runs.
\<close>

record dom_node =
  tagName :: string
  node_id :: string
  className :: string

record first_input_entry =
  fe_name :: string
  fe_target :: "dom_node option"
  fe_startTime :: real
  fe_processingStart :: real
  fe_processingEnd :: real

text \<open>\<open>v || null\<close> for a string \<open>v\<close>.\<close>

definition or_null :: "string \<Rightarrow> string option" where
  "or_null v = (if v = [] then None else Some v)"

definition targetElement :: "first_input_entry \<Rightarrow> target_element option" where
  "targetElement firstInput =
     (case fe_target firstInput of
        None \<Rightarrow> None
      | Some node \<Rightarrow> Some \<lparr> te_tagName = tagName node, te_id = or_null (node_id node),
                            te_className = or_null (className node) \<rparr>)"

text \<open>The callback of the observer that \<open>setupFID\<close> creates.\<close>

definition fid_callback :: "host \<Rightarrow> moment \<Rightarrow> first_input_entry list \<Rightarrow> sdk \<Rightarrow> sdk option" where
  "fid_callback h m entries s =
     (case entries of
        [] \<Rightarrow> None
      | firstInput # _ \<Rightarrow>
          (let inputDetails = \<lparr> id_type = fe_name firstInput,
                                id_target = targetElement firstInput,
                                id_processingStart = fe_processingStart firstInput,
                                id_processingEnd = fe_processingEnd firstInput,
                                id_startTime = fe_startTime firstInput \<rparr>;
               fidValue = fe_processingStart firstInput - fe_startTime firstInput;
               s1 = snd (sendEvent m ''core_web_vital''
                           ((vital_event ''FID'' fidValue)
                              \<lparr> ed_inputType := Some (fe_name firstInput),
                                ed_details := Some inputDetails \<rparr>) True s);
               um = unifiedDataModel s1
           in Some (s1\<lparr> unifiedDataModel :=
                         um\<lparr> um_web_vitals := (um_web_vitals um)\<lparr> FID := Some
                             ((plain_vital fidValue (timeOrigin h + fe_startTime firstInput))
                                \<lparr> vr_inputType := Some (fe_name firstInput),
                                  vr_details := Some inputDetails \<rparr>) \<rparr> \<rparr> \<rparr>)))"

text \<open>The record that the callback assigns to the FID slot for a first entry.\<close>

definition fid_record :: "host \<Rightarrow> first_input_entry \<Rightarrow> vital_record" where
  "fid_record h firstInput =
     \<lparr> vr_value = fe_processingStart firstInput - fe_startTime firstInput,
       vr_timestamp = timeOrigin h + fe_startTime firstInput,
       vr_element = None,
       vr_inputType = Some (fe_name firstInput),
       vr_details = Some \<lparr> id_type = fe_name firstInput,
                            id_target = targetElement firstInput,
                            id_processingStart = fe_processingStart firstInput,
                            id_processingEnd = fe_processingEnd firstInput,
                            id_startTime = fe_startTime firstInput \<rparr>,
       vr_entries = None \<rparr>"

text \<open>
  What can happen around the FID slot: the callback of a first-input observer runs
  (both observers of a registered agent run the same callback), the page or the host
  does anything a \<open>page_event\<close> describes, or the registration request settles.
\<close>

datatype fid_event =
    FirstInput moment "first_input_entry list"
  | PageDoes page_event
  | SessionSettled moment bool

fun fid_step :: "host \<Rightarrow> fid_event \<Rightarrow> sdk \<Rightarrow> sdk option" where
  "fid_step h (FirstInput m entries) s = fid_callback h m entries s"
| "fid_step h (PageDoes ev) s = Some (page_step h ev s)"
| "fid_step h (SessionSettled m success) s = Some (sessionRegistered h m success s)"

fun fid_run :: "host \<Rightarrow> fid_event list \<Rightarrow> sdk \<Rightarrow> sdk option" where
  "fid_run h [] s = Some s"
| "fid_run h (x # xs) s =
     (case fid_step h x s of None \<Rightarrow> None | Some s' \<Rightarrow> fid_run h xs s')"

text \<open>
  The platform queues one \<open>first-input\<close> entry per page: every callback, the buffered
  delivery to a later observer included, carries that entry first. The runs below are
  those whose callbacks all read it as \<open>e\<close>, target included.
\<close>

fun first_input_is :: "first_input_entry \<Rightarrow> fid_event list \<Rightarrow> bool" where
  "first_input_is e [] = True"
| "first_input_is e (FirstInput m entries # xs) =
     ((case entries of [] \<Rightarrow> False | e' # _ \<Rightarrow> e' = e) \<and> first_input_is e xs)"
| "first_input_is e (_ # xs) = first_input_is e xs"

section \<open>The instrumented \<open>fetch\<close>\<close>

text \<open>
  The first argument of \<open>fetch\<close>: a string, a \<open>Request\<close> (its URL and method), or any
  other object that \<open>fetch\<close> converts to a string, such as a \<open>URL\<close>.
\<close>

datatype fetch_input = StringInput string | RequestInput string string | OtherInput string

record fetch_init =
  init_method :: "string option"

definition own_endpoint :: "string \<Rightarrow> bool" where
  "own_endpoint url =
     (str_includes url ''/api/sessions'' \<or> str_includes url ''/api/events''
      \<or> str_includes url ''/api/resources'' \<or> str_includes url ''/api/web-vitals''
      \<or> str_includes url ''/api/ajax-calls'')"

text \<open>
  The function that \<open>monitorFetchAPI\<close> installs as \<open>window.fetch\<close>. \<open>m\<close> is the moment of
  the call and \<open>m'\<close> the moment the original promise settles; the handlers attached to
  that promise run then and store the call record. A rejected \<open>clone().text()\<close> is
  swallowed by the inner \<open>catch\<close>. Calling \<open>includes\<close> on an \<open>undefined\<close> URL throws.
\<close>

definition patched_fetch ::
  "(fetch_input \<Rightarrow> fetch_init option \<Rightarrow> response promise) \<Rightarrow> moment \<Rightarrow> moment
     \<Rightarrow> fetch_input \<Rightarrow> fetch_init option \<Rightarrow> sdk \<Rightarrow> response promise outcome \<times> sdk" where
  "patched_fetch originalFetch m m' input fi s =
     (let url = (case input of StringInput u \<Rightarrow> Some u
                             | RequestInput u mth \<Rightarrow> Some u
                             | OtherInput obj \<Rightarrow> None);
          method0 = (case input of RequestInput u mth \<Rightarrow> Some mth | _ \<Rightarrow> None);
          method1 = (case fi of
                       None \<Rightarrow> method0
                     | Some i \<Rightarrow> Some (if truthy_str (init_method i)
                                       then (case init_method i of Some mth \<Rightarrow> mth | None \<Rightarrow> ''GET'')
                                       else ''GET''));
          method = (if truthy_str method1
                    then (case method1 of Some mth \<Rightarrow> mth | None \<Rightarrow> ''GET'') else ''GET'')
      in case url of
           None \<Rightarrow> (Thrown ''TypeError'', s)
         | Some u \<Rightarrow>
             if own_endpoint u then (Returned (originalFetch input fi), s)
             else
               (let startTime = now m;
                    ajaxCallData = \<lparr> ac_type = ''fetch'', ac_method = method, ac_url = u,
                                     ac_status = 0, ac_startTime = startTime, ac_duration = 0,
                                     ac_responseSize = - 1, ac_errored = False \<rparr>;
                    fetchPromise = originalFetch input fi;
                    s' = (case fetchPromise of
                            Fulfilled response \<Rightarrow>
                              (let d1 = ajaxCallData\<lparr> ac_duration := now m' - startTime,
                                                      ac_status := status response \<rparr>;
                                   d2 = (case content_length response of
                                           None \<Rightarrow> d1 | Some n \<Rightarrow> d1\<lparr> ac_responseSize := n \<rparr>)
                               in case body_text response of
                                    Fulfilled txt \<Rightarrow>
                                      storeAjaxCallData m'
                                        (if ac_responseSize d2 < 0
                                         then d2\<lparr> ac_responseSize := int (length txt) \<rparr> else d2) s
                                  | Rejected err \<Rightarrow> s)
                          | Rejected error \<Rightarrow>
                              storeAjaxCallData m'
                                (ajaxCallData\<lparr> ac_duration := now m' - startTime,
                                                ac_errored := True \<rparr>) s)
                in (Returned fetchPromise, s')))"

section \<open>Invariants used below\<close>

text \<open>
  The resource list that \<open>_collectResources\<close> leaves behind, as a function of the list
  it found: an entry is appended unless a record of the same name is already there.
\<close>

definition collect_step :: "resource_entry \<Rightarrow> resource list \<Rightarrow> resource list" where
  "collect_step e rs =
     (if list_ex (\<lambda>r. res_name r = pe_name e) rs then rs else rs @ [processedResource e])"

text \<open>
  An agent without a session: no session id, nothing buffered, nothing transmitted, no
  vital recorded, and only the two timers of the constructor running.
\<close>

definition inert :: "sdk \<Rightarrow> bool" where
  "inert s =
     (sessionId s = None
      \<and> buffer s = \<lparr> events = [], resources = [], webVitals = [], ajaxCalls = [],
                     preSessionAjaxCalls = [] \<rparr>
      \<and> outbox s = []
      \<and> installed s = [ResourceCollectionTimer, PeriodicFlushTimer]
      \<and> um_session_id (unifiedDataModel s) = None
      \<and> um_web_vitals (unifiedDataModel s)
          = \<lparr> LCP = None, FID = None, CLS = None, TTFB = None, INP = None \<rparr>
      \<and> um_ajax_requests (unifiedDataModel s) = [])"






text \<open>The record in the FID slot at the end of a run, if the run ends.\<close>

definition stored_fid :: "sdk option \<Rightarrow> vital_record option" where
  "stored_fid res =
     (case res of None \<Rightarrow> None | Some s \<Rightarrow> FID (um_web_vitals (unifiedDataModel s)))"

section \<open>A concrete page\<close>

definition demo_host :: host where
  "demo_host =
     \<lparr> has_performance_mark = True, has_PerformanceObserver = True,
       supportedEntryTypes = Some [''largest-contentful-paint'', ''first-input'',
         ''layout-shift'', ''event'', ''longtask'', ''resource'', ''navigation''],
       has_fetch = True, has_requestIdleCallback = True,
       navigationEntry = Some \<lparr> nav_responseStart = 120, nav_type = ''navigate'' \<rparr>,
       timeOrigin = 1000000, location_href = ''https://example.com/'' \<rparr>"

definition at_time :: "real \<Rightarrow> visibility \<Rightarrow> resource_entry list \<Rightarrow> moment" where
  "at_time t v es = \<lparr> now = t, visibilityState = v, resourceEntries = es \<rparr>"

definition with_key :: options where
  "with_key = \<lparr> opt_apiKey = Some ''key-1'', opt_endpoint = None, opt_flushInterval = None \<rparr>"

definition without_key :: options where
  "without_key = \<lparr> opt_apiKey = None, opt_endpoint = None, opt_flushInterval = None \<rparr>"

text \<open>
  Three hosts: one whose requests fail, one whose requests succeed, and one that has
  neither \<open>fetch\<close> nor \<open>sendBeacon\<close>. All of them serialise every payload.
\<close>

definition offline :: "payload network" where
  "offline =
     \<lparr> stringify = (\<lambda>d. Returned ''{...}''), sendBeacon = None,
       fetch = Some (\<lambda>u r. Returned (Rejected ''offline'')) \<rparr>"

definition online :: "payload network" where
  "online =
     \<lparr> stringify = (\<lambda>d. Returned ''{...}''),
       sendBeacon = Some (\<lambda>u b. Returned True),
       fetch = Some (\<lambda>u r. Returned (Fulfilled
                 \<lparr> ok = True, status = 200, json = Fulfilled ''{}'',
                   content_length = Some 2, body_text = Fulfilled ''{}'' \<rparr>)) \<rparr>"

text \<open>
  A browser that has none of \<open>fetch\<close>, \<open>sendBeacon\<close>, \<open>PerformanceObserver\<close>,
  \<open>performance.mark\<close> and \<open>requestIdleCallback\<close>, and its network functions.
\<close>

definition legacy_host :: host where
  "legacy_host =
     \<lparr> has_performance_mark = False, has_PerformanceObserver = False,
       supportedEntryTypes = None, has_fetch = False, has_requestIdleCallback = False,
       navigationEntry = None, timeOrigin = 1000000, location_href = ''https://example.com/'' \<rparr>"

definition fetchless :: "payload network" where
  "fetchless = \<lparr> stringify = (\<lambda>d. Returned ''{...}''), sendBeacon = None, fetch = None \<rparr>"

definition script_entry :: "string \<Rightarrow> resource_entry" where
  "script_entry url =
     \<lparr> pe_name = url, pe_initiatorType = ''script'', pe_nextHopProtocol = ''h2'',
       pe_startTime = 100, pe_duration = 40, pe_transferSize = 2048,
       pe_encodedBodySize = 2000, pe_decodedBodySize = 6000 \<rparr>"

definition app_js :: string where
  "app_js = ''https://example.com/app.js''"

text \<open>
  The agent as constructed with a credential, which is also the agent after a
  registration that failed, and the agent after a registration that succeeded.
\<close>

definition unregistered :: sdk where
  "unregistered = Optima demo_host (at_time 5 Visible []) ''lx'' ''uuid'' with_key"

definition registered :: sdk where
  "registered = sessionRegistered demo_host (at_time 50 Visible []) True unregistered"

definition unkeyed :: sdk where
  "unkeyed = Optima demo_host (at_time 5 Visible []) ''lx'' ''uuid'' without_key"

text \<open>The registered agent after its resource timer has seen one script load.\<close>

definition collecting :: sdk where
  "collecting = timer_fires demo_host (at_time 3000 Visible [script_entry app_js])
                  ResourceCollectionTimer registered"


definition api_call :: ajax_call where
  "api_call =
     \<lparr> ac_type = ''xhr'', ac_method = ''GET'', ac_url = ''https://example.com/api/items'',
       ac_status = 200, ac_startTime = 7000, ac_duration = 30, ac_responseSize = 512,
       ac_errored = False \<rparr>"

definition click :: event_data where
  "click = vital_event [] 0"

text \<open>
  The first input of the page, a tap on a button, as a callback reads it while the
  button has the class \<open>btn\<close>, and as a later callback reads the same entry once the
  page has given the button the class \<open>btn loading\<close>.
\<close>

definition tap :: first_input_entry where
  "tap = \<lparr> fe_name = ''pointerdown'',
           fe_target = Some \<lparr> tagName = ''BUTTON'', node_id = ''buy'', className = ''btn'' \<rparr>,
           fe_startTime = 1000, fe_processingStart = 1010, fe_processingEnd = 1020 \<rparr>"

definition tap_reread :: first_input_entry where
  "tap_reread = tap\<lparr> fe_target :=
       Some \<lparr> tagName = ''BUTTON'', node_id = ''buy'', className = ''btn loading'' \<rparr> \<rparr>"


section \<open>C9: the transport\<close>

lemma catch_p_fulfilled: "\<exists>b. catch_p p g = Fulfilled b"
  by (cases p) (simp_all add: catch_p_def)

lemma response_chain_fulfilled: "\<exists>b. response_chain p = Fulfilled b"
  unfolding response_chain_def by (rule catch_p_fulfilled)

lemma response_chain_true_iff:
  "response_chain p = Fulfilled True \<longleftrightarrow> (\<exists>r d. p = Fulfilled r \<and> ok r \<and> json r = Fulfilled d)"
  by (auto simp: response_chain_def then_p_def catch_p_def split: promise.splits)

lemma response_chain_false:
  "response_chain (Rejected e) = Fulfilled False"
  "\<not> ok r \<Longrightarrow> response_chain (Fulfilled r) = Fulfilled False"
  "json r = Rejected e \<Longrightarrow> response_chain (Fulfilled r) = Fulfilled False"
  by (simp_all add: response_chain_def then_p_def catch_p_def)

text \<open>
  A promise that \<open>sendToServer\<close> returns is never rejected: it resolves to a boolean,
  \<open>false\<close> on a network failure, a non-success response or a body that does not parse.
\<close>

lemma sendToServer_never_rejected:
  assumes "sendToServer net ep pth dat key sync = Returned p"
  shows "\<exists>b. p = Fulfilled b"
  using assms response_chain_fulfilled
  by (auto simp: sendToServer_def Let_def split: outcome.splits option.splits if_splits)

text \<open>Without \<open>sync\<close>, \<open>sendBeacon\<close> is not consulted and one \<open>fetch\<close> decides the result.\<close>

lemma sendToServer_plain:
  assumes "stringify net dat = Returned body" and "fetch net = Some host_fetch"
    and "host_fetch (ep @ pth) \<lparr> req_method = ''POST'', req_content_type = ''application/json'',
                                  req_x_api_key = key, req_body = body \<rparr> = Returned p"
  shows "sendToServer net ep pth dat key False = Returned (response_chain p)"
  using assms by (simp add: sendToServer_def Let_def)

text \<open>
  With \<open>sync\<close> and a \<open>sendBeacon\<close> that returns, its result is the result, whatever
  \<open>fetch\<close> is; with \<open>sync\<close> and no \<open>sendBeacon\<close> the call is the non-urgent one.
\<close>

lemma sendToServer_beacon:
  assumes "stringify net dat = Returned body" and "sendBeacon net = Some beacon"
    and "beacon (ep @ pth) body = Returned result"
  shows "sendToServer net ep pth dat key True = Returned (Fulfilled result)"
  using assms by (simp add: sendToServer_def Let_def)

lemma sendToServer_fallback:
  assumes "sendBeacon net = None"
  shows "sendToServer net ep pth dat key True = sendToServer net ep pth dat key False"
  using assms by (simp add: sendToServer_def Let_def split: outcome.splits)

text \<open>Exactly when \<open>sendToServer\<close> throws: when one of the three host functions does.\<close>

lemma sendToServer_throws_iff:
  "sendToServer net ep pth dat key sync = Thrown e \<longleftrightarrow>
     (case stringify net dat of
        Thrown e' \<Rightarrow> e' = e
      | Returned body \<Rightarrow>
          (case (if sync then sendBeacon net else None) of
             Some beacon \<Rightarrow> beacon (ep @ pth) body = Thrown e
           | None \<Rightarrow>
               (case fetch net of
                  None \<Rightarrow> e = ''ReferenceError''
                | Some host_fetch \<Rightarrow>
                    host_fetch (ep @ pth)
                      \<lparr> req_method = ''POST'', req_content_type = ''application/json'',
                        req_x_api_key = key, req_body = body \<rparr> = Thrown e)))"
  by (auto simp: sendToServer_def Let_def split: outcome.splits option.splits)

text \<open>
  C9 fails on the code. In a browser that has neither \<open>fetch\<close> nor \<open>sendBeacon\<close>, the
  request for \<open>/api/sessions\<close> throws a \<open>ReferenceError\<close> to its caller, urgent or not,
  instead of returning a promise; the caller is \<open>createSession\<close>, so constructing the
  agent with a credential throws to the page.
\<close>

theorem sendToServer_throws_without_fetch:
  "sendToServer fetchless ''http://localhost:3000'' ''/api/sessions''
      (SessionData \<lparr> sd_session_id = ''lx-uuid'', sd_page_url = ''https://example.com/'',
                     sd_timestamp = 5 \<rparr>) ''key-1'' False = Thrown ''ReferenceError''
   \<and> sendToServer fetchless ''http://localhost:3000'' ''/api/sessions''
      (SessionData \<lparr> sd_session_id = ''lx-uuid'', sd_page_url = ''https://example.com/'',
                     sd_timestamp = 5 \<rparr>) ''key-1'' True = Thrown ''ReferenceError''
   \<and> activate fetchless legacy_host (at_time 5 Visible []) ''lx'' ''uuid'' with_key
        (at_time 50 Visible []) = Thrown ''ReferenceError''"
  by (simp add: sendToServer_def fetchless_def activate_def Optima_def init_def fresh_def
      setupBatchedCollection_def startBatchedCollection_def setupPeriodicFlush_def install_def
      initPerformanceMetrics_def setupCoreWebVitals_def supports_def captureNavigationTiming_def
      sendEvent_def setupAjaxMonitoring_def createSession_def mergePreSessionAjaxCalls_def
      send_def setupPageLifecycleEvents_def truthy_str_def or_default_def vital_event_def
      plain_vital_def legacy_host_def at_time_def with_key_def Let_def)

section \<open>Unfolding the model\<close>

lemmas sdk_defs = Optima_def init_def fresh_def setupBatchedCollection_def startBatchedCollection_def
  setupPeriodicFlush_def install_def initPerformanceMetrics_def setupCoreWebVitals_def supports_def
  captureNavigationTiming_def sendEvent_def setupAjaxMonitoring_def createSession_def
  mergePreSessionAjaxCalls_def send_def setupPageLifecycleEvents_def truthy_str_def or_default_def
  vital_event_def plain_vital_def sessionRegistered_def setupEventListeners_def
  setupPerformanceObservers_def captureResourceData_def collectResources_def startBatchProcessing_def
  activate_def sendToServer_def response_chain_def then_p_def catch_p_def
  demo_host_def at_time_def with_key_def without_key_def offline_def online_def fetchless_def script_entry_def
  app_js_def registered_def unregistered_def unkeyed_def Let_def

lemmas flush_defs = sendCollectedData_def prepareFinalDataAndSend_def consolidateBufferedData_def
  updateMetadata_def updateWebVitalsInUnifiedModel_def sendUnifiedData_def
  resetVolatileDataInUnifiedModel_def hasSignificantData_def vital_has_value_def
  flushBuffers_def flushEvents_def flushResources_def flushWebVitals_def

lemmas collect_defs = collectResource_def isResourceProcessed_def processedResource_def
  getResourceType_def

section \<open>Resource collection on the list level, and the agent without a session\<close>

lemma collectResource_eq:
  "collectResource e s
     = s\<lparr> unifiedDataModel := (unifiedDataModel s)\<lparr> um_resources :=
            collect_step e (um_resources (unifiedDataModel s)) \<rparr> \<rparr>"
  by (simp add: collectResource_def collect_step_def isResourceProcessed_def)

lemma fold_collectResource:
  "fold collectResource es s
     = s\<lparr> unifiedDataModel := (unifiedDataModel s)\<lparr> um_resources :=
            fold collect_step es (um_resources (unifiedDataModel s)) \<rparr> \<rparr>"
proof (induction es arbitrary: s)
  case Nil
  show ?case by simp
next
  case (Cons e es)
  have "fold collectResource (e # es) s = fold collectResource es (collectResource e s)"
    by simp
  also have "\<dots> = (collectResource e s)\<lparr> unifiedDataModel :=
      (unifiedDataModel (collectResource e s))\<lparr> um_resources :=
         fold collect_step es (um_resources (unifiedDataModel (collectResource e s))) \<rparr> \<rparr>"
    by (rule Cons.IH)
  also have "\<dots> = s\<lparr> unifiedDataModel := (unifiedDataModel s)\<lparr> um_resources :=
            fold collect_step (e # es) (um_resources (unifiedDataModel s)) \<rparr> \<rparr>"
    by (simp add: collectResource_eq)
  finally show ?case .
qed

lemma collectResources_eq:
  "collectResources m s
     = s\<lparr> unifiedDataModel := (unifiedDataModel s)\<lparr> um_resources :=
            fold collect_step (resourceEntries m) (um_resources (unifiedDataModel s)) \<rparr>,
          collectionState := (collectionState s)\<lparr> resourcesCollected := True \<rparr> \<rparr>"
  by (simp add: collectResources_def fold_collectResource Let_def)

lemma inert_collectResources: "inert s \<Longrightarrow> inert (collectResources m s)"
  by (simp add: collectResources_eq inert_def)

lemma inert_flush:
  assumes "inert s"
  shows "prepareFinalDataAndSend h m b s
     = s\<lparr> unifiedDataModel := (unifiedDataModel s)\<lparr> um_timestamp := Some (now m),
            um_meta := Some \<lparr> meta_url = location_href h,
               meta_page_visibility = visibilityState m,
               meta_visibility_changes = visibilityChangeCount (collectionState s),
               meta_timestamp = now m \<rparr> \<rparr> \<rparr>"
  using assms
  by (simp add: inert_def prepareFinalDataAndSend_def consolidateBufferedData_def
      updateMetadata_def updateWebVitalsInUnifiedModel_def sendUnifiedData_def truthy_str_def Let_def)

lemma inert_prepareFinal: "inert s \<Longrightarrow> inert (prepareFinalDataAndSend h m b s)"
  by (simp add: inert_flush) (simp add: inert_def)

lemma trim_Nil: "trim n [] = []"
  by (simp add: trim_def split: option.splits)

lemma inert_trimBuffers: "inert s \<Longrightarrow> inert (trimBuffers s)"
  by (simp add: inert_def trimBuffers_def trim_Nil Let_def)

lemma inert_timer: "inert s \<Longrightarrow> inert (timer_fires h m hnd s)"
  by (cases hnd) (simp_all add: timer_fires_def inert_collectResources inert_prepareFinal
      inert_trimBuffers, simp_all add: inert_def)

lemma inert_dispatch_visibility: "inert s \<Longrightarrow> dispatch_visibilitychange h m s = s"
  by (simp add: inert_def dispatch_visibilitychange_def on_visibilitychange_def)

lemma inert_dispatch_unload: "inert s \<Longrightarrow> dispatch_beforeunload h m s = s"
  by (simp add: inert_def dispatch_beforeunload_def on_beforeunload_def)

lemma inert_sendEvent: "inert s \<Longrightarrow> sendEvent m t d i s = (False, s)"
  by (simp add: inert_def sendEvent_def truthy_str_def)

lemma inert_page_step: "inert s \<Longrightarrow> inert (page_step h ev s)"
  by (cases ev)
     (simp_all add: inert_timer inert_dispatch_visibility inert_dispatch_unload
       sendCollectedData_def inert_prepareFinal captureResourceData_def inert_collectResources
       inert_sendEvent)

lemma inert_page_run: "inert s \<Longrightarrow> inert (page_run h evs s)"
  unfolding page_run_def
  by (induction evs arbitrary: s) (simp_all add: inert_page_step)

lemma Optima_without_key:
  assumes "\<not> truthy_str (opt_apiKey opts)"
  shows "Optima h m stamp randomPart opts
     = (fresh opts)\<lparr> collectionState :=
           (collectionState (fresh opts))\<lparr> isBatchProcessingStarted := True \<rparr>,
         installed := [ResourceCollectionTimer, PeriodicFlushTimer] \<rparr>"
  using assms
  by (simp add: Optima_def init_def setupBatchedCollection_def startBatchedCollection_def
      setupPeriodicFlush_def install_def fresh_def)

lemma inert_Optima: "\<not> truthy_str (opt_apiKey opts) \<Longrightarrow> inert (Optima h m stamp randomPart opts)"
  by (simp add: Optima_without_key) (simp add: inert_def fresh_def)

section \<open>C5: an agent constructed without a credential\<close>

text \<open>
  Counterexample to C5 as stated. On the agent constructed without a credential, the
  \<open>flushBuffers\<close> command changes the unified model (its time stamp goes from \<open>null\<close>
  to the time of the call), and the resource-collection timer that the constructor
  started has collected a script into the model.
\<close>

theorem flush_without_credential_counterexample:
  "um_timestamp (unifiedDataModel unkeyed) = None
   \<and> um_timestamp (unifiedDataModel
        (sendCollectedData demo_host (at_time 4000 Visible []) False unkeyed)) = Some 4000
   \<and> installed unkeyed = [ResourceCollectionTimer, PeriodicFlushTimer]
   \<and> map res_name (um_resources (unifiedDataModel
        (timer_fires demo_host (at_time 3000 Visible [script_entry app_js])
           ResourceCollectionTimer unkeyed)))
       = [''https://example.com/app.js'']"
  by (simp add: sdk_defs flush_defs timer_fires_def collect_defs)

text \<open>
  C5, amended. Constructing the agent without a credential (absent or empty) leaves
  the session id \<open>null\<close> and registers nothing but the constructor's two timers: no
  performance observer, no patch of the network primitives, no page-signal listener.
  Whatever timers, page signals and commands follow, the agent stays without a
  session, with empty buffers, no recorded vital and nothing transmitted. A flush
  then transmits nothing and changes nothing except the time stamp and the metadata
  of the unified model.
\<close>

theorem no_credential_agent_stays_inert:
  assumes "\<not> truthy_str (opt_apiKey opts)"
  shows "sessionId (Optima h m stamp randomPart opts) = None
    \<and> installed (Optima h m stamp randomPart opts) = [ResourceCollectionTimer, PeriodicFlushTimer]
    \<and> inert (page_run h evs (Optima h m stamp randomPart opts))
    \<and> sendCollectedData h m' useBeacon (page_run h evs (Optima h m stamp randomPart opts))
        = (page_run h evs (Optima h m stamp randomPart opts))
            \<lparr> unifiedDataModel :=
                (unifiedDataModel (page_run h evs (Optima h m stamp randomPart opts)))
                  \<lparr> um_timestamp := Some (now m'),
                    um_meta := Some \<lparr> meta_url = location_href h,
                       meta_page_visibility = visibilityState m',
                       meta_visibility_changes = visibilityChangeCount
                         (collectionState (page_run h evs (Optima h m stamp randomPart opts))),
                       meta_timestamp = now m' \<rparr> \<rparr> \<rparr>"
proof -
  have start: "inert (Optima h m stamp randomPart opts)"
    using assms by (rule inert_Optima)
  then have run: "inert (page_run h evs (Optima h m stamp randomPart opts))"
    by (rule inert_page_run)
  from start have "sessionId (Optima h m stamp randomPart opts) = None"
    and "installed (Optima h m stamp randomPart opts) = [ResourceCollectionTimer, PeriodicFlushTimer]"
    by (simp_all add: inert_def)
  then show ?thesis
    using run inert_flush [OF run, of h m' useBeacon] by (simp add: sendCollectedData_def)
qed

theorem no_credential_agent_stays_inert_witness:
  "\<not> truthy_str (opt_apiKey without_key)
   \<and> sessionId unkeyed = None
   \<and> outbox (page_run demo_host
        [TimerFires (at_time 3000 Visible [script_entry app_js]) ResourceCollectionTimer,
         FlushCommand (at_time 4000 Visible []) False] unkeyed) = []
   \<and> webVitals (buffer (page_run demo_host
        [TimerFires (at_time 3000 Visible [script_entry app_js]) ResourceCollectionTimer,
         FlushCommand (at_time 4000 Visible []) False] unkeyed)) = []"
proof -
  have key: "\<not> truthy_str (opt_apiKey without_key)"
    by (simp add: without_key_def truthy_str_def)
  show ?thesis
    using key no_credential_agent_stays_inert [OF key, of demo_host "at_time 5 Visible []" "''lx''" "''uuid''"
        "[TimerFires (at_time 3000 Visible [script_entry app_js]) ResourceCollectionTimer,
          FlushCommand (at_time 4000 Visible []) False]"]
    by (simp add: inert_def unkeyed_def)
qed

section \<open>C8: the volatile part of the unified model\<close>

lemma merge_vital_keeps_set:
  "(LCP wv \<noteq> None \<longrightarrow> LCP (merge_vital v wv) \<noteq> None)
   \<and> (FID wv \<noteq> None \<longrightarrow> FID (merge_vital v wv) \<noteq> None)
   \<and> (CLS wv \<noteq> None \<longrightarrow> CLS (merge_vital v wv) \<noteq> None)
   \<and> (TTFB wv \<noteq> None \<longrightarrow> TTFB (merge_vital v wv) \<noteq> None)
   \<and> (INP wv \<noteq> None \<longrightarrow> INP (merge_vital v wv) \<noteq> None)"
  by (simp add: merge_vital_def Let_def)

lemma fold_merge_vital_keeps_set:
  "(LCP wv \<noteq> None \<longrightarrow> LCP (fold merge_vital vs wv) \<noteq> None)
   \<and> (FID wv \<noteq> None \<longrightarrow> FID (fold merge_vital vs wv) \<noteq> None)
   \<and> (CLS wv \<noteq> None \<longrightarrow> CLS (fold merge_vital vs wv) \<noteq> None)
   \<and> (TTFB wv \<noteq> None \<longrightarrow> TTFB (fold merge_vital vs wv) \<noteq> None)
   \<and> (INP wv \<noteq> None \<longrightarrow> INP (fold merge_vital vs wv) \<noteq> None)"
proof (induction vs arbitrary: wv)
  case Nil
  show ?case by simp
next
  case (Cons v vs)
  show ?case using Cons.IH [of "merge_vital v wv"] merge_vital_keeps_set [of wv v] by simp
qed

lemma web_vitals_sendUnifiedData:
  "um_web_vitals (unifiedDataModel (sendUnifiedData b s)) = um_web_vitals (unifiedDataModel s)"
  by (simp add: sendUnifiedData_def resetVolatileDataInUnifiedModel_def send_def)

lemma web_vitals_prepareFinal:
  "um_web_vitals (unifiedDataModel (prepareFinalDataAndSend h m b s))
     = fold merge_vital (webVitals (buffer s)) (um_web_vitals (unifiedDataModel s))"
  by (simp add: prepareFinalDataAndSend_def web_vitals_sendUnifiedData updateWebVitalsInUnifiedModel_def
      consolidateBufferedData_def updateMetadata_def Let_def)

text \<open>
  C8. Whenever \<open>_sendUnifiedData\<close> transmits (the model carries a session id), the
  payload is the model as it stood, and afterwards \<open>resources\<close> and \<open>ajax_requests\<close> are
  empty while \<open>session_id\<close> and \<open>web_vitals\<close> are what they were; the reset itself never
  touches them. This holds whatever the transport answers, so in particular after a
  successful transmission. A vital that is recorded stays recorded through every
  consolidate-and-transmit.
\<close>

theorem volatile_reset_keeps_web_vitals:
  assumes "truthy_str (um_session_id (unifiedDataModel s))"
  shows "outbox (sendUnifiedData useBeacon s)
           = outbox s @ [\<lparr> tx_path = ''/api/collect'', tx_data = UnifiedData (unifiedDataModel s),
                           tx_sync = useBeacon \<rparr>]
    \<and> um_resources (unifiedDataModel (sendUnifiedData useBeacon s)) = []
    \<and> um_ajax_requests (unifiedDataModel (sendUnifiedData useBeacon s)) = []
    \<and> um_web_vitals (unifiedDataModel (sendUnifiedData useBeacon s)) = um_web_vitals (unifiedDataModel s)
    \<and> um_session_id (unifiedDataModel (sendUnifiedData useBeacon s)) = um_session_id (unifiedDataModel s)
    \<and> um_web_vitals (unifiedDataModel (resetVolatileDataInUnifiedModel s)) = um_web_vitals (unifiedDataModel s)
    \<and> um_session_id (unifiedDataModel (resetVolatileDataInUnifiedModel s)) = um_session_id (unifiedDataModel s)
    \<and> (\<forall>slot \<in> {LCP, FID, CLS, TTFB, INP}.
          slot (um_web_vitals (unifiedDataModel s)) \<noteq> None
          \<longrightarrow> slot (um_web_vitals (unifiedDataModel (prepareFinalDataAndSend h m useBeacon s))) \<noteq> None)"
proof -
  have sent: "sendUnifiedData useBeacon s
      = resetVolatileDataInUnifiedModel
          (send ''/api/collect'' (UnifiedData (unifiedDataModel s)) useBeacon s)"
    using assms by (simp add: sendUnifiedData_def)
  have persist: "\<forall>slot \<in> {LCP, FID, CLS, TTFB, INP}.
          slot (um_web_vitals (unifiedDataModel s)) \<noteq> None
          \<longrightarrow> slot (um_web_vitals (unifiedDataModel (prepareFinalDataAndSend h m useBeacon s))) \<noteq> None"
    using fold_merge_vital_keeps_set [of "um_web_vitals (unifiedDataModel s)" "webVitals (buffer s)"]
    by (simp add: web_vitals_prepareFinal)
  show ?thesis
    using persist by (simp add: sent resetVolatileDataInUnifiedModel_def send_def)
qed

text \<open>
  The scenario of the specification: registration succeeds, the resource timer reports
  one script load of 40 ms, and the model is sent. The payload holds exactly that
  record, the model's array is empty afterwards, and TTFB is still recorded.
\<close>

theorem volatile_reset_keeps_web_vitals_witness:
  "truthy_str (um_session_id (unifiedDataModel collecting))
   \<and> map res_name (um_resources (unifiedDataModel collecting)) = [''https://example.com/app.js'']
   \<and> map res_duration (um_resources (unifiedDataModel collecting)) = [40]
   \<and> map tx_path (outbox (sendUnifiedData False collecting)) = [''/api/sessions'', ''/api/collect'']
   \<and> tx_data (last (outbox (sendUnifiedData False collecting))) = UnifiedData (unifiedDataModel collecting)
   \<and> um_resources (unifiedDataModel (sendUnifiedData False collecting)) = []
   \<and> TTFB (um_web_vitals (unifiedDataModel
         (prepareFinalDataAndSend demo_host (at_time 5000 Visible []) False collecting))) \<noteq> None"
proof -
  have sid: "truthy_str (um_session_id (unifiedDataModel collecting))"
    by (simp add: collecting_def sdk_defs timer_fires_def collect_defs)
  have res: "map res_name (um_resources (unifiedDataModel collecting)) = [''https://example.com/app.js'']"
    "map res_duration (um_resources (unifiedDataModel collecting)) = [40]"
    "map tx_path (outbox collecting) = [''/api/sessions'']"
    "TTFB (um_web_vitals (unifiedDataModel collecting)) \<noteq> None"
    by (simp_all add: collecting_def sdk_defs timer_fires_def collect_defs Math_round_def)
  show ?thesis
    using sid res volatile_reset_keeps_web_vitals
            [OF sid, of False demo_host "at_time 5000 Visible []"]
    by simp
qed

section \<open>C1: what the registration outcome gates\<close>









section \<open>C2: the sent-once flag of the unload handler\<close>

lemma unloadSent_prepareFinal:
  "unloadSent (collectionState (prepareFinalDataAndSend h m b s)) = unloadSent (collectionState s)"
  by (simp add: flush_defs send_def Let_def)

lemma unloadSent_collectResources:
  "unloadSent (collectionState (collectResources m s)) = unloadSent (collectionState s)"
  by (simp add: collectResources_eq)

lemma unloadSent_sendEvent:
  "unloadSent (collectionState (snd (sendEvent m t d i s))) = unloadSent (collectionState s)"
  by (simp add: sendEvent_def updateWebVitalsInUnifiedModel_def Let_def)

lemma unloadSent_on_visibilitychange:
  "unloadSent (collectionState (on_visibilitychange h m hnd s)) = unloadSent (collectionState s)"
  by (cases hnd)
     (simp_all add: on_visibilitychange_def unloadSent_prepareFinal unloadSent_sendEvent
       refreshVisibleState_def unloadSent_collectResources flushBuffers_def Let_def
       split: option.splits)

lemma unloadSent_on_beforeunload:
  "unloadSent (collectionState s) \<Longrightarrow> unloadSent (collectionState (on_beforeunload h m hnd s))"
  by (cases hnd)
     (simp_all add: on_beforeunload_def unloadSent_prepareFinal flushBuffers_def Let_def)

lemma unloadSent_fold_visibility:
  "unloadSent (collectionState (fold (on_visibilitychange h m) hs s)) = unloadSent (collectionState s)"
  by (induction hs arbitrary: s) (simp_all add: unloadSent_on_visibilitychange)

lemma unloadSent_fold_unload:
  "unloadSent (collectionState s) \<Longrightarrow> unloadSent (collectionState (fold (on_beforeunload h m) hs s))"
  by (induction hs arbitrary: s) (simp_all add: unloadSent_on_beforeunload)

lemma unloadSent_timer:
  "unloadSent (collectionState (timer_fires h m hnd s)) = unloadSent (collectionState s)"
  by (cases hnd)
     (simp_all add: timer_fires_def unloadSent_collectResources unloadSent_prepareFinal
       flushEvents_def flushWebVitals_def flushResources_def trimBuffers_def
       updateWebVitalsInUnifiedModel_def Let_def)

lemma unloadSent_page_step:
  "unloadSent (collectionState s) \<Longrightarrow> unloadSent (collectionState (page_step h ev s))"
  by (cases ev)
     (simp_all add: unloadSent_timer dispatch_visibilitychange_def unloadSent_fold_visibility
       dispatch_beforeunload_def unloadSent_fold_unload sendCollectedData_def
       unloadSent_prepareFinal captureResourceData_def unloadSent_collectResources
       unloadSent_sendEvent)

lemma unloadSent_page_run:
  "unloadSent (collectionState s) \<Longrightarrow> unloadSent (collectionState (page_run h evs s))"
  unfolding page_run_def
  by (induction evs arbitrary: s) (simp_all add: unloadSent_page_step)

lemma collect_sends_prepareFinal:
  "length (collect_sends (prepareFinalDataAndSend h m b s)) \<le> length (collect_sends s) + 1"
  by (simp add: collect_sends_def flush_defs send_def Let_def)

text \<open>
  Counterexample to C2 as stated. On the registered agent a transition to hidden
  followed by \<open>beforeunload\<close> transmits the unified model three times: once from the
  lifecycle visibility listener, which neither reads nor sets the flag, once from the
  guarded unload listener, and once from the unload listener of the batch processing.
\<close>

theorem hidden_then_unload_counterexample:
  "unloadSent (collectionState registered) = False
   \<and> map tx_path (outbox (page_run demo_host
         [VisibilityChange (at_time 9000 Hidden [])] registered))
       = [''/api/sessions'', ''/api/collect'']
   \<and> unloadSent (collectionState (page_run demo_host
         [VisibilityChange (at_time 9000 Hidden [])] registered)) = False
   \<and> map tx_path (outbox (page_run demo_host
         [VisibilityChange (at_time 9000 Hidden []), BeforeUnload (at_time 9001 Hidden [])]
         registered))
       = [''/api/sessions'', ''/api/collect'', ''/api/collect'', ''/api/collect'']"
  by (simp add: sdk_defs flush_defs page_run_def dispatch_visibilitychange_def
      dispatch_beforeunload_def on_visibilitychange_def on_beforeunload_def)

text \<open>
  C2, amended. The sent-once flag guards the lifecycle \<open>beforeunload\<close> listener and
  nothing else. That listener always leaves the flag set and transmits at most once
  per run; once it has run, whatever timers, page signals and commands follow, running
  it again changes nothing, so it performs at most one final consolidate-and-transmit
  per page. The visibility-hidden listeners and the other unload listeners transmit
  without looking at the flag.
\<close>

theorem unload_flag_guards_lifecycle_listener:
  "unloadSent (collectionState (on_beforeunload h m LifecycleUnloadHandler s))
   \<and> length (collect_sends (on_beforeunload h m LifecycleUnloadHandler s))
       \<le> length (collect_sends s) + 1
   \<and> (unloadSent (collectionState s) \<longrightarrow> on_beforeunload h m LifecycleUnloadHandler s = s)
   \<and> on_beforeunload h m2 LifecycleUnloadHandler
        (page_run h evs (on_beforeunload h m LifecycleUnloadHandler s))
       = page_run h evs (on_beforeunload h m LifecycleUnloadHandler s)
   \<and> on_visibilitychange h m LifecycleVisibilityHandler s
       = (if visibilityState m = Hidden
          then prepareFinalDataAndSend h m True
                 (s\<lparr> collectionState := (collectionState s)\<lparr> visibilityChangeCount :=
                        visibilityChangeCount (collectionState s) + 1 \<rparr> \<rparr>)
          else refreshVisibleState m
                 (s\<lparr> collectionState := (collectionState s)\<lparr> visibilityChangeCount :=
                        visibilityChangeCount (collectionState s) + 1 \<rparr> \<rparr>))
   \<and> on_beforeunload h m BatchUnloadHandler s = prepareFinalDataAndSend h m True s"
proof -
  have sets: "unloadSent (collectionState (on_beforeunload h m LifecycleUnloadHandler s))"
    by (simp add: on_beforeunload_def Let_def)
  have once: "length (collect_sends (on_beforeunload h m LifecycleUnloadHandler s))
       \<le> length (collect_sends s) + 1"
    using collect_sends_prepareFinal [of h m True s]
    by (simp add: on_beforeunload_def collect_sends_def Let_def)
  have idle: "on_beforeunload h m' LifecycleUnloadHandler t = t"
    if "unloadSent (collectionState t)" for t m'
    using that by (simp add: on_beforeunload_def)
  have later: "unloadSent (collectionState
      (page_run h evs (on_beforeunload h m LifecycleUnloadHandler s)))"
    using sets by (rule unloadSent_page_run)
  have hidden: "on_visibilitychange h m LifecycleVisibilityHandler s
       = (if visibilityState m = Hidden
          then prepareFinalDataAndSend h m True
                 (s\<lparr> collectionState := (collectionState s)\<lparr> visibilityChangeCount :=
                        visibilityChangeCount (collectionState s) + 1 \<rparr> \<rparr>)
          else refreshVisibleState m
                 (s\<lparr> collectionState := (collectionState s)\<lparr> visibilityChangeCount :=
                        visibilityChangeCount (collectionState s) + 1 \<rparr> \<rparr>))"
    by (simp add: on_visibilitychange_def Let_def)
  have batch: "on_beforeunload h m BatchUnloadHandler s = prepareFinalDataAndSend h m True s"
    by (simp add: on_beforeunload_def flushBuffers_def)
  show ?thesis
    using sets once idle [of s m] idle [OF later, of m2] hidden batch by simp
qed

theorem unload_flag_guards_lifecycle_listener_witness:
  "unloadSent (collectionState (on_beforeunload demo_host (at_time 9001 Hidden [])
      LifecycleUnloadHandler registered))
   \<and> map tx_path (outbox (on_beforeunload demo_host (at_time 9002 Hidden []) LifecycleUnloadHandler
        (on_beforeunload demo_host (at_time 9001 Hidden []) LifecycleUnloadHandler registered)))
       = [''/api/sessions'', ''/api/collect'']"
proof -
  have first: "map tx_path (outbox (on_beforeunload demo_host (at_time 9001 Hidden [])
      LifecycleUnloadHandler registered)) = [''/api/sessions'', ''/api/collect'']"
    by (simp add: sdk_defs flush_defs on_beforeunload_def)
  show ?thesis
    using first
      unload_flag_guards_lifecycle_listener
        [of demo_host "at_time 9001 Hidden []" registered "at_time 9002 Hidden []" "[]"]
      unload_flag_guards_lifecycle_listener
        [of demo_host "at_time 9002 Hidden []"
          "on_beforeunload demo_host (at_time 9001 Hidden []) LifecycleUnloadHandler registered"
          "at_time 9002 Hidden []" "[]"]
    by simp
qed

section \<open>C3: the LCP slot\<close>

subsection \<open>The buffered path merges by maximum\<close>






subsection \<open>Every step keeps the observers and the model in agreement\<close>









lemma sessionRegistered_frame:
  "sessionId (sessionRegistered h m b s) = sessionId s"
  "webVitals (buffer (sessionRegistered h m b s)) = webVitals (buffer s)"
  "um_web_vitals (unifiedDataModel (sessionRegistered h m b s)) = um_web_vitals (unifiedDataModel s)"
  by (simp_all add: sessionRegistered_def setupEventListeners_def setupPerformanceObservers_def
      startBatchProcessing_def captureResourceData_def collectResources_eq setupAjaxMonitoring_def
      setupCoreWebVitals_def install_def Let_def)







subsection \<open>Runs\<close>








section \<open>C4: which resources are collected\<close>

lemma collect_step_names:
  "map res_name (collect_step e rs)
     = (if pe_name e \<in> set (map res_name rs) then map res_name rs
        else map res_name rs @ [pe_name e])"
  by (force simp: collect_step_def list_ex_iff processedResource_def image_iff)

lemma collect_step_distinct:
  "distinct (map res_name rs) \<Longrightarrow> distinct (map res_name (collect_step e rs))"
  by (simp add: collect_step_names)

lemma collect_step_prefix: "take (length rs) (collect_step e rs) = rs"
  by (simp add: collect_step_def)

lemma collect_step_length: "length rs \<le> length (collect_step e rs)"
  by (simp add: collect_step_def)

lemma fold_collect_step:
  "(distinct (map res_name rs) \<longrightarrow> distinct (map res_name (fold collect_step es rs)))
   \<and> take (length rs) (fold collect_step es rs) = rs
   \<and> length rs \<le> length (fold collect_step es rs)
   \<and> set (map res_name (fold collect_step es rs)) = set (map res_name rs) \<union> set (map pe_name es)"
proof (induction es arbitrary: rs)
  case Nil
  show ?case by simp
next
  case (Cons e es)
  note IH = Cons.IH [of "collect_step e rs"]
  have pre: "take (length rs) (fold collect_step es (collect_step e rs)) = rs"
  proof -
    have "take (length rs) (fold collect_step es (collect_step e rs))
        = take (length rs) (take (length (collect_step e rs)) (fold collect_step es (collect_step e rs)))"
      using collect_step_length [of rs e] by (simp add: min_def)
    also have "\<dots> = take (length rs) (collect_step e rs)"
      using IH by simp
    finally show ?thesis by (simp add: collect_step_prefix)
  qed
  have len: "length rs \<le> length (fold collect_step es (collect_step e rs))"
    using IH collect_step_length [of rs e] by linarith
  have names: "set (map res_name (collect_step e rs)) = insert (pe_name e) (set (map res_name rs))"
    by (auto simp: collect_step_names)
  show ?case
    using IH pre len names collect_step_distinct [of rs e] by auto
qed

text \<open>
  Counterexample to C4 as stated. Two script loads that differ in their query string
  only have the same composite key, and the collection path keeps both. It never
  consults \<open>shouldCollectResource\<close>, which in the constructor's configuration (no
  \<open>resourceDedupingEnabled\<close>) accepts the second record as well.
\<close>

theorem same_key_counterexample:
  "hashResource (processedResource (script_entry ''https://example.com/app.js?v=1''))
     = hashResource (processedResource (script_entry ''https://example.com/app.js?v=2''))
   \<and> map res_name (um_resources (unifiedDataModel
        (collectResources
           (at_time 3000 Visible [script_entry ''https://example.com/app.js?v=1'',
                                   script_entry ''https://example.com/app.js?v=2''])
           registered)))
       = [''https://example.com/app.js?v=1'', ''https://example.com/app.js?v=2'']
   \<and> shouldCollectResource (at_time 3000 Visible [])
        (processedResource (script_entry ''https://example.com/app.js?v=2''))
        registered = Some (True, registered)"
  by (simp add: hashResource_def before_query_def shouldCollectResource_def
      sdk_defs collect_defs Math_round_def)

text \<open>
  C4, amended. The collection path deduplicates by resource name (the full URL) against
  the records currently held in the unified model: a resource whose name is already
  there is dropped, any other is appended. So the records already held are retained in
  place, the names in the model stay pairwise distinct, and after a pass the names
  held are those held before together with those presented.
\<close>

theorem collection_dedups_by_name:
  assumes "distinct (map res_name (um_resources (unifiedDataModel s)))"
  shows "distinct (map res_name (um_resources (unifiedDataModel (collectResources m s))))
    \<and> take (length (um_resources (unifiedDataModel s)))
         (um_resources (unifiedDataModel (collectResources m s)))
        = um_resources (unifiedDataModel s)
    \<and> set (map res_name (um_resources (unifiedDataModel (collectResources m s))))
        = set (map res_name (um_resources (unifiedDataModel s))) \<union> set (map pe_name (resourceEntries m))
    \<and> (\<forall>e. pe_name e \<in> set (map res_name (um_resources (unifiedDataModel s)))
           \<longrightarrow> collectResource e s = s)"
proof -
  have skip: "\<forall>e. pe_name e \<in> set (map res_name (um_resources (unifiedDataModel s)))
           \<longrightarrow> collectResource e s = s"
    by (auto simp: collectResource_def isResourceProcessed_def list_ex_iff)
  show ?thesis
    using assms skip fold_collect_step [of "um_resources (unifiedDataModel s)" "resourceEntries m"]
    by (simp add: collectResources_eq)
qed

theorem collection_dedups_by_name_witness:
  "distinct (map res_name (um_resources (unifiedDataModel collecting)))
   \<and> map res_name (um_resources (unifiedDataModel collecting)) = [''https://example.com/app.js'']
   \<and> collectResource (script_entry app_js) collecting = collecting
   \<and> distinct (map res_name (um_resources (unifiedDataModel
        (collectResources (at_time 6000 Visible [script_entry app_js, script_entry app_js])
           collecting))))"
proof -
  have held: "map res_name (um_resources (unifiedDataModel collecting)) = [''https://example.com/app.js'']"
    by (simp add: collecting_def sdk_defs timer_fires_def collect_defs)
  then have dist: "distinct (map res_name (um_resources (unifiedDataModel collecting)))"
    by simp
  have name: "pe_name (script_entry app_js) = ''https://example.com/app.js''"
    by (simp add: script_entry_def app_js_def)
  show ?thesis
    using held dist name
      collection_dedups_by_name [OF dist,
        of "at_time 6000 Visible [script_entry app_js, script_entry app_js]"]
    by simp
qed

section \<open>C6: how the buffers are bounded\<close>

lemma trim_positive:
  assumes "0 < N"
  shows "trim (Some N) xs = drop (length xs - N) xs"
    and "length (trim (Some N) xs) = min N (length xs)"
  using assms by (simp_all add: trim_def slice_last_def)

lemma store_below_batch:
  assumes "truthy_str (sessionId s)"
    and "Suc (length (ajaxCalls (buffer s))) < maxAjaxCallsPerBatch (batchConfig s)"
  shows "storeAjaxCallData m c s
     = s\<lparr> buffer := (buffer s)\<lparr> ajaxCalls := ajaxCalls (buffer s) @ [c] \<rparr> \<rparr>"
  using assms by (simp add: storeAjaxCallData_def Let_def)

lemma stores_below_batch:
  assumes "truthy_str (sessionId s)"
    and "length (ajaxCalls (buffer s)) + n < maxAjaxCallsPerBatch (batchConfig s)"
  shows "fold (storeAjaxCallData m) (replicate n c) s
     = s\<lparr> buffer := (buffer s)\<lparr> ajaxCalls := ajaxCalls (buffer s) @ replicate n c \<rparr> \<rparr>"
  using assms
proof (induction n arbitrary: s)
  case 0
  show ?case by simp
next
  case (Suc n)
  let ?s1 = "s\<lparr> buffer := (buffer s)\<lparr> ajaxCalls := ajaxCalls (buffer s) @ [c] \<rparr> \<rparr>"
  have step: "storeAjaxCallData m c s = ?s1"
    using Suc.prems by (intro store_below_batch) simp_all
  have "fold (storeAjaxCallData m) (replicate n c) ?s1
      = ?s1\<lparr> buffer := (buffer ?s1)\<lparr> ajaxCalls := ajaxCalls (buffer ?s1) @ replicate n c \<rparr> \<rparr>"
    using Suc.prems by (intro Suc.IH) simp_all
  then show ?case
    by (simp add: step replicate_app_Cons_same)
qed

lemma store_stays_below_batch:
  assumes "truthy_str (sessionId s)"
    and "length (ajaxCalls (buffer s)) < maxAjaxCallsPerBatch (batchConfig s)"
  shows "length (ajaxCalls (buffer (storeAjaxCallData m c s))) < maxAjaxCallsPerBatch (batchConfig s)"
  using assms by (simp add: storeAjaxCallData_def flushAjaxCalls_def send_def Let_def)

text \<open>
  Counterexample to C6 as stated. The constructor configures no \<open>maxBufferSize\<close>, and a
  trim leaves three buffered events as they are. With a maximum of 2 configured, three
  insertions still leave three events, since inserting does not trim. And the
  network-call buffer, whose batch size is 50, holds one record after 51 insertions,
  the first 50 having been transmitted.
\<close>

theorem buffer_cap_counterexample:
  "maxBufferSize (batchConfig registered) = None
   \<and> length (events (buffer (page_run demo_host
        [EventCommand (at_time 7000 Visible []) ''user_interaction'' click False,
         EventCommand (at_time 7001 Visible []) ''user_interaction'' click False,
         EventCommand (at_time 7002 Visible []) ''user_interaction'' click False,
         TimerFires (at_time 30000 Visible []) TrimTimer] registered))) = 3
   \<and> length (events (buffer (page_run demo_host
        [EventCommand (at_time 7000 Visible []) ''user_interaction'' click False,
         EventCommand (at_time 7001 Visible []) ''user_interaction'' click False,
         EventCommand (at_time 7002 Visible []) ''user_interaction'' click False]
        (registered\<lparr> batchConfig := (batchConfig registered)\<lparr> maxBufferSize := Some 2 \<rparr> \<rparr>)))) = 3
   \<and> maxAjaxCallsPerBatch (batchConfig registered) = 50
   \<and> length (ajaxCalls (buffer
        (fold (storeAjaxCallData (at_time 7100 Visible [])) (replicate 51 api_call) registered))) = 1"
proof -
  have cfg: "maxBufferSize (batchConfig registered) = None"
    "maxAjaxCallsPerBatch (batchConfig registered) = 50"
    "truthy_str (sessionId registered)"
    "ajaxCalls (buffer registered) = []"
    by (simp_all add: sdk_defs collect_defs)
  have three: "length (events (buffer (page_run demo_host
        [EventCommand (at_time 7000 Visible []) ''user_interaction'' click False,
         EventCommand (at_time 7001 Visible []) ''user_interaction'' click False,
         EventCommand (at_time 7002 Visible []) ''user_interaction'' click False,
         TimerFires (at_time 30000 Visible []) TrimTimer] registered))) = 3"
    by (simp add: page_run_def sdk_defs collect_defs timer_fires_def trimBuffers_def trim_def click_def)
  have capped: "length (events (buffer (page_run demo_host
        [EventCommand (at_time 7000 Visible []) ''user_interaction'' click False,
         EventCommand (at_time 7001 Visible []) ''user_interaction'' click False,
         EventCommand (at_time 7002 Visible []) ''user_interaction'' click False]
        (registered\<lparr> batchConfig := (batchConfig registered)\<lparr> maxBufferSize := Some 2 \<rparr> \<rparr>)))) = 3"
    by (simp add: page_run_def sdk_defs collect_defs click_def)
  have "replicate (49 + 2) api_call = replicate 49 api_call @ replicate 2 api_call"
    by (rule replicate_add)
  then have split: "replicate 51 api_call = replicate 49 api_call @ [api_call, api_call]"
    by (simp add: numeral_2_eq_2)
  have filled: "fold (storeAjaxCallData (at_time 7100 Visible [])) (replicate 49 api_call) registered
      = registered\<lparr> buffer := (buffer registered)\<lparr> ajaxCalls :=
            ajaxCalls (buffer registered) @ replicate 49 api_call \<rparr> \<rparr>"
    using cfg by (intro stores_below_batch) simp_all
  have flushed: "length (ajaxCalls (buffer
        (fold (storeAjaxCallData (at_time 7100 Visible [])) [api_call, api_call]
           (registered\<lparr> buffer := (buffer registered)\<lparr> ajaxCalls :=
              ajaxCalls (buffer registered) @ replicate 49 api_call \<rparr> \<rparr>)))) = 1"
    using cfg by (simp add: storeAjaxCallData_def flushAjaxCalls_def send_def Let_def)
  have calls: "length (ajaxCalls (buffer
        (fold (storeAjaxCallData (at_time 7100 Visible [])) (replicate 51 api_call) registered))) = 1"
    unfolding split fold_append o_apply filled by (rule flushed)
  show ?thesis
    using cfg three capped calls by simp
qed

text \<open>
  C6, amended. With a positive \<open>maxBufferSize\<close> of \<open>N\<close> configured, \<open>trimBuffers\<close> cuts
  each of the events, resources and web-vitals buffers down to its \<open>N\<close> most recent
  records, in insertion order, and leaves at most \<open>N\<close>; a buffer of \<open>N + 1\<close> records
  loses its oldest one. The two network-call buffers are not trimmed. With a session,
  the network-call buffer is flushed when it reaches \<open>maxAjaxCallsPerBatch\<close>, so it
  stays below that size from one insertion to the next.
\<close>

theorem trim_keeps_most_recent:
  assumes "maxBufferSize (batchConfig s) = Some N" and "0 < N"
  shows "events (buffer (trimBuffers s))
           = drop (length (events (buffer s)) - N) (events (buffer s))
    \<and> resources (buffer (trimBuffers s))
           = drop (length (resources (buffer s)) - N) (resources (buffer s))
    \<and> webVitals (buffer (trimBuffers s))
           = drop (length (webVitals (buffer s)) - N) (webVitals (buffer s))
    \<and> length (events (buffer (trimBuffers s))) = min N (length (events (buffer s)))
    \<and> length (resources (buffer (trimBuffers s))) = min N (length (resources (buffer s)))
    \<and> length (webVitals (buffer (trimBuffers s))) = min N (length (webVitals (buffer s)))
    \<and> (length (events (buffer s)) = N + 1
          \<longrightarrow> events (buffer (trimBuffers s)) = tl (events (buffer s)))
    \<and> ajaxCalls (buffer (trimBuffers s)) = ajaxCalls (buffer s)
    \<and> preSessionAjaxCalls (buffer (trimBuffers s)) = preSessionAjaxCalls (buffer s)
    \<and> (truthy_str (sessionId s)
          \<and> length (ajaxCalls (buffer s)) < maxAjaxCallsPerBatch (batchConfig s)
          \<longrightarrow> length (ajaxCalls (buffer (storeAjaxCallData m c s)))
                < maxAjaxCallsPerBatch (batchConfig s))"
proof -
  have trimmed: "events (buffer (trimBuffers s)) = trim (Some N) (events (buffer s))"
    "resources (buffer (trimBuffers s)) = trim (Some N) (resources (buffer s))"
    "webVitals (buffer (trimBuffers s)) = trim (Some N) (webVitals (buffer s))"
    "ajaxCalls (buffer (trimBuffers s)) = ajaxCalls (buffer s)"
    "preSessionAjaxCalls (buffer (trimBuffers s)) = preSessionAjaxCalls (buffer s)"
    using assms(1) by (simp_all add: trimBuffers_def Let_def)
  note recent = trim_positive(1) [OF assms(2)]
  note capped = trim_positive(2) [OF assms(2)]
  have oldest: "length (events (buffer s)) = N + 1
      \<longrightarrow> trim (Some N) (events (buffer s)) = tl (events (buffer s))"
    by (simp add: recent drop_Suc)
  have below: "truthy_str (sessionId s)
          \<and> length (ajaxCalls (buffer s)) < maxAjaxCallsPerBatch (batchConfig s)
          \<longrightarrow> length (ajaxCalls (buffer (storeAjaxCallData m c s)))
                < maxAjaxCallsPerBatch (batchConfig s)"
    using store_stays_below_batch [of s m c] by blast
  show ?thesis
    unfolding trimmed capped using oldest below by (simp add: recent)
qed

theorem trim_keeps_most_recent_witness:
  "maxBufferSize (batchConfig
      (registered\<lparr> batchConfig := (batchConfig registered)\<lparr> maxBufferSize := Some 2 \<rparr> \<rparr>)) = Some 2
   \<and> (0::nat) < 2
   \<and> map ev_timestamp (events (buffer (page_run demo_host
        [EventCommand (at_time 7000 Visible []) ''user_interaction'' click False,
         EventCommand (at_time 7001 Visible []) ''user_interaction'' click False,
         EventCommand (at_time 7002 Visible []) ''user_interaction'' click False]
        (registered\<lparr> batchConfig := (batchConfig registered)\<lparr> maxBufferSize := Some 2 \<rparr> \<rparr>))))
       = [7000, 7001, 7002]
   \<and> map ev_timestamp (events (buffer (trimBuffers (page_run demo_host
        [EventCommand (at_time 7000 Visible []) ''user_interaction'' click False,
         EventCommand (at_time 7001 Visible []) ''user_interaction'' click False,
         EventCommand (at_time 7002 Visible []) ''user_interaction'' click False]
        (registered\<lparr> batchConfig := (batchConfig registered)\<lparr> maxBufferSize := Some 2 \<rparr> \<rparr>)))))
       = [7001, 7002]
   \<and> length (ajaxCalls (buffer (storeAjaxCallData (at_time 7100 Visible []) api_call registered))) < 50"
proof -
  let ?s = "page_run demo_host
        [EventCommand (at_time 7000 Visible []) ''user_interaction'' click False,
         EventCommand (at_time 7001 Visible []) ''user_interaction'' click False,
         EventCommand (at_time 7002 Visible []) ''user_interaction'' click False]
        (registered\<lparr> batchConfig := (batchConfig registered)\<lparr> maxBufferSize := Some 2 \<rparr> \<rparr>)"
  have cfg: "maxBufferSize (batchConfig ?s) = Some 2"
    and evs: "map ev_timestamp (events (buffer ?s)) = [7000, 7001, 7002]"
    by (simp_all add: page_run_def sdk_defs collect_defs click_def)
  have two: "(0::nat) < 2" by simp
  have reg: "maxBufferSize (batchConfig
      (registered\<lparr> batchConfig := (batchConfig registered)\<lparr> maxBufferSize := Some 2 \<rparr> \<rparr>)) = Some 2"
    "truthy_str (sessionId (registered\<lparr> batchConfig := (batchConfig registered)\<lparr> maxBufferSize := Some 2 \<rparr> \<rparr>))"
    "ajaxCalls (buffer (registered\<lparr> batchConfig := (batchConfig registered)\<lparr> maxBufferSize := Some 2 \<rparr> \<rparr>)) = []"
    "maxAjaxCallsPerBatch (batchConfig (registered\<lparr> batchConfig := (batchConfig registered)\<lparr> maxBufferSize := Some 2 \<rparr> \<rparr>)) = 50"
    by (simp_all add: sdk_defs collect_defs)
  have len: "length (events (buffer ?s)) = 3"
    using evs by (metis length_map length_Cons list.size(3) numeral_3_eq_3)
  have trimmed: "events (buffer (trimBuffers ?s)) = drop 1 (events (buffer ?s))"
    using trim_keeps_most_recent [OF cfg two] len by simp
  have below: "length (ajaxCalls (buffer (storeAjaxCallData (at_time 7100 Visible []) api_call
      (registered\<lparr> batchConfig := (batchConfig registered)\<lparr> maxBufferSize := Some 2 \<rparr> \<rparr>)))) < 50"
    using trim_keeps_most_recent [OF reg(1) two, of "at_time 7100 Visible []" api_call] reg by simp
  have same: "ajaxCalls (buffer (storeAjaxCallData (at_time 7100 Visible []) api_call
      (registered\<lparr> batchConfig := (batchConfig registered)\<lparr> maxBufferSize := Some 2 \<rparr> \<rparr>)))
      = ajaxCalls (buffer (storeAjaxCallData (at_time 7100 Visible []) api_call registered))"
    by (simp add: storeAjaxCallData_def flushAjaxCalls_def send_def sdk_defs collect_defs)
  show ?thesis
    using reg(1) two evs trimmed below same by (simp add: drop_map [symmetric])
qed

section \<open>C7: the FID slot\<close>

text \<open>The buffered path keeps the first FID record: a set slot is never replaced.\<close>

lemma merge_vital_keeps_FID: "FID wv \<noteq> None \<Longrightarrow> FID (merge_vital e wv) = FID wv"
  by (auto simp: merge_vital_def Let_def)

lemma fold_merge_vital_keeps_FID: "FID wv \<noteq> None \<Longrightarrow> FID (fold merge_vital vs wv) = FID wv"
  by (induction vs arbitrary: wv) (simp_all add: merge_vital_keeps_FID)

text \<open>The observer's callback assigns the slot from the first entry, whatever it held.\<close>

lemma fid_callback_assigns:
  "\<exists>s'. fid_callback h m (e # es) s = Some s'
     \<and> FID (um_web_vitals (unifiedDataModel s')) = Some (fid_record h e)"
  by (simp add: fid_callback_def fid_record_def plain_vital_def Let_def)

subsection \<open>Nothing but the callback replaces a set FID record\<close>

lemma FID_update:
  assumes "FID (um_web_vitals (unifiedDataModel s)) \<noteq> None"
  shows "FID (um_web_vitals (unifiedDataModel (updateWebVitalsInUnifiedModel s)))
           = FID (um_web_vitals (unifiedDataModel s))"
  using assms by (simp add: updateWebVitalsInUnifiedModel_def fold_merge_vital_keeps_FID)

lemma FID_prepareFinal:
  assumes "FID (um_web_vitals (unifiedDataModel s)) \<noteq> None"
  shows "FID (um_web_vitals (unifiedDataModel (prepareFinalDataAndSend h m b s)))
           = FID (um_web_vitals (unifiedDataModel s))"
  using assms by (simp add: web_vitals_prepareFinal fold_merge_vital_keeps_FID)

lemma FID_collectResources:
  "FID (um_web_vitals (unifiedDataModel (collectResources m s)))
     = FID (um_web_vitals (unifiedDataModel s))"
  by (simp add: collectResources_eq)

lemma FID_sendEvent:
  assumes "FID (um_web_vitals (unifiedDataModel s)) \<noteq> None"
  shows "FID (um_web_vitals (unifiedDataModel (snd (sendEvent m t d i s))))
           = FID (um_web_vitals (unifiedDataModel s))"
  using assms
  by (simp add: sendEvent_def FID_update Let_def)

lemma FID_on_visibilitychange:
  assumes "FID (um_web_vitals (unifiedDataModel s)) \<noteq> None"
  shows "FID (um_web_vitals (unifiedDataModel (on_visibilitychange h m hnd s)))
           = FID (um_web_vitals (unifiedDataModel s))"
  using assms
  by (cases hnd)
     (simp_all add: on_visibilitychange_def FID_prepareFinal FID_sendEvent refreshVisibleState_def
       FID_collectResources flushBuffers_def Let_def)

lemma FID_on_beforeunload:
  assumes "FID (um_web_vitals (unifiedDataModel s)) \<noteq> None"
  shows "FID (um_web_vitals (unifiedDataModel (on_beforeunload h m hnd s)))
           = FID (um_web_vitals (unifiedDataModel s))"
  using assms
  by (cases hnd) (simp_all add: on_beforeunload_def FID_prepareFinal flushBuffers_def Let_def)

lemma FID_fold_visibility:
  assumes "FID (um_web_vitals (unifiedDataModel s)) \<noteq> None"
  shows "FID (um_web_vitals (unifiedDataModel (fold (on_visibilitychange h m) hs s)))
           = FID (um_web_vitals (unifiedDataModel s))"
  using assms by (induction hs arbitrary: s) (simp_all add: FID_on_visibilitychange)

lemma FID_fold_unload:
  assumes "FID (um_web_vitals (unifiedDataModel s)) \<noteq> None"
  shows "FID (um_web_vitals (unifiedDataModel (fold (on_beforeunload h m) hs s)))
           = FID (um_web_vitals (unifiedDataModel s))"
  using assms by (induction hs arbitrary: s) (simp_all add: FID_on_beforeunload)

lemma FID_timer:
  assumes "FID (um_web_vitals (unifiedDataModel s)) \<noteq> None"
  shows "FID (um_web_vitals (unifiedDataModel (timer_fires h m hnd s)))
           = FID (um_web_vitals (unifiedDataModel s))"
  using assms
  by (cases hnd)
     (simp_all add: timer_fires_def FID_collectResources FID_prepareFinal FID_update
       flushEvents_def flushWebVitals_def flushResources_def trimBuffers_def Let_def)

lemma FID_page_step:
  assumes "FID (um_web_vitals (unifiedDataModel s)) \<noteq> None"
  shows "FID (um_web_vitals (unifiedDataModel (page_step h ev s)))
           = FID (um_web_vitals (unifiedDataModel s))"
  using assms
  by (cases ev)
     (simp_all add: FID_timer dispatch_visibilitychange_def FID_fold_visibility
       dispatch_beforeunload_def FID_fold_unload sendCollectedData_def FID_prepareFinal
       captureResourceData_def FID_collectResources FID_sendEvent)

lemma FID_sessionRegistered:
  "FID (um_web_vitals (unifiedDataModel (sessionRegistered h m b s)))
     = FID (um_web_vitals (unifiedDataModel s))"
  by (simp add: sessionRegistered_frame)

text \<open>
  So a run whose callbacks all read the first entry alike ends with the record of that
  entry, whatever the page, the timers and the registration do in between.
\<close>

lemma fid_run_keeps_record:
  assumes "FID (um_web_vitals (unifiedDataModel s)) = Some (fid_record h e)"
    and "first_input_is e xs"
  shows "\<exists>s'. fid_run h xs s = Some s'
           \<and> FID (um_web_vitals (unifiedDataModel s')) = Some (fid_record h e)"
  using assms
proof (induction xs arbitrary: s)
  case Nil
  then show ?case by simp
next
  case (Cons x xs)
  show ?case
  proof (cases x)
    case (FirstInput m entries)
    then obtain es where entries: "entries = e # es" and rest: "first_input_is e xs"
      using Cons.prems(2) by (cases entries) simp_all
    obtain s1 where s1: "fid_callback h m (e # es) s = Some s1"
      "FID (um_web_vitals (unifiedDataModel s1)) = Some (fid_record h e)"
      using fid_callback_assigns by blast
    show ?thesis
      using Cons.IH [OF s1(2) rest] s1(1) FirstInput entries by simp
  next
    case (PageDoes ev)
    have "FID (um_web_vitals (unifiedDataModel (page_step h ev s))) = Some (fid_record h e)"
      using Cons.prems(1) by (simp add: FID_page_step)
    then show ?thesis
      using Cons.IH Cons.prems(2) PageDoes by simp
  next
    case (SessionSettled m success)
    have "FID (um_web_vitals (unifiedDataModel (sessionRegistered h m success s)))
        = Some (fid_record h e)"
      using Cons.prems(1) by (simp add: FID_sessionRegistered)
    then show ?thesis
      using Cons.IH Cons.prems(2) SessionSettled by simp
  qed
qed

text \<open>
  C7 fails on the code. The first input of the page is a tap on a button of class
  \<open>btn\<close>; it arrives while the registration request is under way, and the observer
  started at construction stores its FID record. The page then gives the button the
  class \<open>btn loading\<close>. When the registration succeeds, \<open>setupCoreWebVitals\<close> runs a second
  time and starts a second first-input observer with \<open>buffered: true\<close>, which receives
  the same entry; its callback reads the target as it is now and assigns the slot
  again, so the details of the stored record change. The value, the time stamp and the
  input type are written again with the same contents.
\<close>

theorem reread_first_input_replaces_fid_details:
  "count_list (installed unregistered) FIDObserver = 1
   \<and> count_list (installed (sessionRegistered demo_host (at_time 1500 Visible []) True unregistered))
         FIDObserver = 2
   \<and> stored_fid (fid_run demo_host [FirstInput (at_time 1020 Visible []) [tap]] unregistered)
     = Some \<lparr> vr_value = 10, vr_timestamp = 1001000, vr_element = None,
              vr_inputType = Some ''pointerdown'',
              vr_details = Some \<lparr> id_type = ''pointerdown'',
                                   id_target = Some \<lparr> te_tagName = ''BUTTON'', te_id = Some ''buy'',
                                                      te_className = Some ''btn'' \<rparr>,
                                   id_processingStart = 1010, id_processingEnd = 1020,
                                   id_startTime = 1000 \<rparr>,
              vr_entries = None \<rparr>
   \<and> stored_fid (fid_run demo_host
        [FirstInput (at_time 1020 Visible []) [tap],
         SessionSettled (at_time 1500 Visible []) True,
         FirstInput (at_time 1501 Visible []) [tap_reread]] unregistered)
     = Some \<lparr> vr_value = 10, vr_timestamp = 1001000, vr_element = None,
              vr_inputType = Some ''pointerdown'',
              vr_details = Some \<lparr> id_type = ''pointerdown'',
                                   id_target = Some \<lparr> te_tagName = ''BUTTON'', te_id = Some ''buy'',
                                                      te_className = Some ''btn loading'' \<rparr>,
                                   id_processingStart = 1010, id_processingEnd = 1020,
                                   id_startTime = 1000 \<rparr>,
              vr_entries = None \<rparr>"
  by (simp add: stored_fid_def fid_callback_def targetElement_def or_null_def tap_def tap_reread_def
      merge_vital_def updateWebVitalsInUnifiedModel_def sdk_defs collect_defs)

section \<open>C10: the instrumented fetch\<close>

text \<open>
  C10 fails on the code. For a string or a \<open>Request\<close> the instrumented \<open>fetch\<close> returns
  the very promise of the original, whether the call is observed or excluded. For any
  other first argument, a \<open>URL\<close> object for one, it throws a \<open>TypeError\<close> before the
  original is called, where the original would have returned a promise.
\<close>

theorem patched_fetch_throws_on_url_object:
  "patched_fetch originalFetch m m' (OtherInput obj) fi s = (Thrown ''TypeError'', s)
   \<and> fst (patched_fetch originalFetch m m' (StringInput u) fi s)
       = Returned (originalFetch (StringInput u) fi)
   \<and> fst (patched_fetch originalFetch m m' (RequestInput u mth) fi s)
       = Returned (originalFetch (RequestInput u mth) fi)"
  by (simp add: patched_fetch_def Let_def)

end
